(* ===== verification/Prelude.thy ===== *)
theory Prelude
  imports Main "HOL-Library.Word"
begin

text \<open>
  Shared vocabulary of the nemo-screenshot model (\<open>src/index.js\<close>): the JavaScript
  values the plugin passes around (possibly-undefined strings, their truthiness and their
  string coercion), the error values that flow through promise rejections, decimal
  rendering of the numbers that go into file names, and the generic list lemmas that the
  component theories share.
\<close>

named_theorems js_simps "facts on the JavaScript coercions used by the model"

type_synonym path = string

text \<open>A JavaScript string as the browser holds it: UTF-16 code units. \<open>u16\<close> reads an
  ASCII literal of the source as such a string.\<close>

type_synonym u16string = "16 word list"

definition u16 :: "string \<Rightarrow> u16string" where
  "u16 s = map (\<lambda>c. of_nat (of_char c)) s"

text \<open>
  A JavaScript error as the plugin sees it: an error raised by the driver or by the
  file system, identified by its code (\<open>ENOENT\<close>, \<open>EACCES\<close>, ...) or by its message.
  The plugin never inspects errors beyond passing them on, so one constructor suffices.
\<close>

datatype js_err = JsError string

text \<open>
  A value that may be \<open>undefined\<close> (an unset environment variable, an unset field) is an
  \<open>option\<close>. Its truthiness in \<open>if (x)\<close> is: defined and not the empty string.
  String concatenation \<open>'a' + x\<close> coerces \<open>undefined\<close> to the text \<open>undefined\<close>.
\<close>

definition js_truthy :: "string option \<Rightarrow> bool" where
  "js_truthy v = (case v of None \<Rightarrow> False | Some s \<Rightarrow> s \<noteq> [])"

definition js_str :: "string option \<Rightarrow> string" where
  "js_str v = (case v of None \<Rightarrow> ''undefined'' | Some s \<Rightarrow> s)"

lemma js_truthy_simps [simp, js_simps]:
  "js_truthy None = False"
  "js_truthy (Some s) = (s \<noteq> [])"
  by (simp_all add: js_truthy_def)

lemma js_str_simps [simp, js_simps]:
  "js_str None = ''undefined''"
  "js_str (Some s) = s"
  by (simp_all add: js_str_def)

text \<open>\<open>Array.prototype.join\<close> with a one-character separator.\<close>

fun join_with :: "'a \<Rightarrow> 'a list list \<Rightarrow> 'a list" where
  "join_with c [] = []"
| "join_with c [s] = s"
| "join_with c (s # ss) = s @ c # join_with c ss"

text \<open>Decimal rendering of a non-negative JavaScript number (\<open>'' + n\<close>).\<close>

definition digit_char :: "nat \<Rightarrow> char" where
  "digit_char d = char_of (48 + d)"

fun dec_string :: "nat \<Rightarrow> string" where
  "dec_string n = (if n < 10 then [digit_char n] else dec_string (n div 10) @ [digit_char (n mod 10)])"

declare dec_string.simps [simp del]

definition is_digit :: "char \<Rightarrow> bool" where
  "is_digit c = (48 \<le> (of_char c :: nat) \<and> (of_char c :: nat) \<le> 57)"

lemma is_digit_digit_char: "d < 10 \<Longrightarrow> is_digit (digit_char d)"
  by (simp add: is_digit_def digit_char_def of_char_of)

lemma dec_string_digits: "\<forall>c \<in> set (dec_string n). is_digit c"
proof (induction n rule: dec_string.induct)
  case (1 n)
  then show ?case
    by (subst dec_string.simps) (auto simp: is_digit_digit_char)
qed

lemma dec_string_nonempty: "dec_string n \<noteq> []"
  by (subst dec_string.simps) simp

lemma slash_not_digit [simp]: "\<not> is_digit CHR ''/''"
  by (simp add: is_digit_def)

lemma dot_not_digit [simp]: "\<not> is_digit CHR ''.''"
  by (simp add: is_digit_def)

lemma dec_string_no_slash: "CHR ''/'' \<notin> set (dec_string n)"
  using dec_string_digits [of n] by auto

end
