(* ===== verification/Promise.thy ===== *)
theory Promise
  imports Prelude
begin

text \<open>
  The Awaitable Bridge, \<open>p(wd)\<close> in \<open>src/index.js\<close> (lines 20--35). A promise is in
  one of three states; the resolving functions of a deferred settle it at most once,
  later calls being ignored. The shim creates a driver deferred (\<open>wd.promise.defer()\<close>)
  and, when the host has a native \<open>Promise\<close>, a native promise whose resolving
  functions replace \<open>fulfill\<close>/\<open>reject\<close>; the returned \<open>promise\<close> is the native one
  in that case and the driver one otherwise. The model keeps both promises and the flag,
  and proves that either way the returned promise behaves as one settle-once cell.
  \<open>js_then\<close> models \<open>promise.then(onFulfilled, onRejected)\<close> on the settled value,
  including the rule that an argument that is not a function is ignored.
\<close>

datatype ('a, 'e) pstate = Pending | Fulfilled 'a | Rejected 'e

text \<open>Resolving an already settled promise has no effect (ECMAScript's
  \<open>[[AlreadyResolved]]\<close>; the driver deferred behaves the same way).\<close>

definition settle :: "('a, 'e) pstate \<Rightarrow> ('a, 'e) pstate \<Rightarrow> ('a, 'e) pstate" where
  "settle new p = (case p of Pending \<Rightarrow> new | _ \<Rightarrow> p)"

record ('a, 'e) deferred =
  has_native :: bool
  wd_promise :: "('a, 'e) pstate"
  native_promise :: "('a, 'e) pstate"

definition p_defer :: "bool \<Rightarrow> ('a, 'e) deferred" where
  "p_defer native = \<lparr>has_native = native, wd_promise = Pending, native_promise = Pending\<rparr>"

definition d_fulfill :: "'a \<Rightarrow> ('a, 'e) deferred \<Rightarrow> ('a, 'e) deferred" where
  "d_fulfill v d =
     (if has_native d then d\<lparr>native_promise := settle (Fulfilled v) (native_promise d)\<rparr>
      else d\<lparr>wd_promise := settle (Fulfilled v) (wd_promise d)\<rparr>)"

definition d_reject :: "'e \<Rightarrow> ('a, 'e) deferred \<Rightarrow> ('a, 'e) deferred" where
  "d_reject e d =
     (if has_native d then d\<lparr>native_promise := settle (Rejected e) (native_promise d)\<rparr>
      else d\<lparr>wd_promise := settle (Rejected e) (wd_promise d)\<rparr>)"

definition d_promise :: "('a, 'e) deferred \<Rightarrow> ('a, 'e) pstate" where
  "d_promise d = (if has_native d then native_promise d else wd_promise d)"

text \<open>A sequence of calls of the deferred's resolving functions.\<close>

datatype ('a, 'e) settle_call = Fulfill 'a | Reject 'e

fun d_call :: "('a, 'e) settle_call \<Rightarrow> ('a, 'e) deferred \<Rightarrow> ('a, 'e) deferred" where
  "d_call (Fulfill v) d = d_fulfill v d"
| "d_call (Reject e) d = d_reject e d"

definition d_run :: "('a, 'e) settle_call list \<Rightarrow> ('a, 'e) deferred \<Rightarrow> ('a, 'e) deferred" where
  "d_run cs d = fold d_call cs d"

text \<open>The contract of the bridge (spec 4.1): the first call decides the outcome.\<close>

fun settle_once :: "('a, 'e) settle_call list \<Rightarrow> ('a, 'e) pstate" where
  "settle_once [] = Pending"
| "settle_once (Fulfill v # _) = Fulfilled v"
| "settle_once (Reject e # _) = Rejected e"

text \<open>
  \<open>js_then p onF onR\<close>: the state of \<open>p.then(onF, onR)\<close> once \<open>p\<close> has settled.
  \<open>None\<close> is an argument that is not callable, which \<open>then\<close> replaces by the identity
  (fulfilment) or by a re-throw (rejection). A handler's result is the state of the value
  it returns or throws.
\<close>

definition js_then :: "('a, 'e) pstate \<Rightarrow> ('a \<Rightarrow> ('a, 'e) pstate) option \<Rightarrow>
    ('e \<Rightarrow> ('a, 'e) pstate) option \<Rightarrow> ('a, 'e) pstate" where
  "js_then p onF onR =
     (case p of
        Pending \<Rightarrow> Pending
      | Fulfilled v \<Rightarrow> (case onF of None \<Rightarrow> Fulfilled v | Some f \<Rightarrow> f v)
      | Rejected e \<Rightarrow> (case onR of None \<Rightarrow> Rejected e | Some g \<Rightarrow> g e))"

subsection \<open>Lemmas\<close>

lemma settle_Pending [simp]: "settle new Pending = new"
  by (simp add: settle_def)

lemma settle_settled [simp]: "p \<noteq> Pending \<Longrightarrow> settle new p = p"
  by (cases p) (simp_all add: settle_def)

lemma has_native_d_call [simp]: "has_native (d_call c d) = has_native d"
  by (cases c) (simp_all add: d_fulfill_def d_reject_def)

lemma d_promise_d_fulfill [simp]: "d_promise (d_fulfill v d) = settle (Fulfilled v) (d_promise d)"
  by (simp add: d_fulfill_def d_promise_def)

lemma d_promise_d_reject [simp]: "d_promise (d_reject e d) = settle (Rejected e) (d_promise d)"
  by (simp add: d_reject_def d_promise_def)

text \<open>Running any sequence of calls: a pending deferred takes the outcome of the first
  call, a settled one keeps its state.\<close>

lemma d_promise_fold:
  "d_promise (fold d_call cs d) =
     (if d_promise d = Pending then settle_once cs else d_promise d)"
proof (induction cs arbitrary: d)
  case Nil
  then show ?case by simp
next
  case (Cons c cs)
  have "d_promise (fold d_call (c # cs) d) = d_promise (fold d_call cs (d_call c d))"
    by simp
  also have "\<dots> = (if d_promise (d_call c d) = Pending then settle_once cs
                    else d_promise (d_call c d))"
    by (rule Cons.IH)
  finally show ?case
    by (cases c; cases "d_promise d") simp_all
qed

lemma d_promise_p_defer [simp]: "d_promise (p_defer b) = Pending"
  by (simp add: d_promise_def p_defer_def)

lemma js_then_simps [simp]:
  "js_then Pending onF onR = Pending"
  "js_then (Fulfilled v) None onR = Fulfilled v"
  "js_then (Fulfilled v) (Some f) onR = f v"
  "js_then (Rejected e) onF None = Rejected e"
  "js_then (Rejected e) onF (Some g) = g e"
  by (simp_all add: js_then_def)

subsection \<open>The bridge settles once\<close>

text \<open>C8 Whatever sequence of fulfil and reject calls a capture makes on its deferred, the
  promise it returns is settled by the first call and keeps that outcome, on the native
  path and on the \<open>webdriver.promise\<close> path alike.\<close>

theorem bridge_settles_once: "d_promise (d_run cs (p_defer native)) = settle_once cs"
  by (simp add: d_run_def d_promise_fold)

end
