(* ===== verification/Slug.thy ===== *)
theory Slug
  imports Prelude
begin

text \<open>
  \<open>titleSlug(title)\<close> (\<open>src/index.js\<close> lines 37--43): a falsy title gives the empty
  string; otherwise the title is trimmed (\<open>String.prototype.trim\<close>), every character
  matched by the regular expression \<open>\W\<close> is replaced by \<open>_\<close>, and the result is cut to
  its first 251 characters. Characters are the model's 8-bit \<open>char\<close>s read as the code
  points U+0000 to U+00FF; JavaScript's white space among them is tab, line feed,
  vertical tab, form feed, carriage return, space and no-break space (U+00A0), and its
  word characters (\<open>\w\<close> without the \<open>u\<close> flag) are \<open>[A-Za-z0-9_]\<close>.
\<close>

definition js_ws :: "char \<Rightarrow> bool" where
  "js_ws c = (let n = (of_char c :: nat) in (9 \<le> n \<and> n \<le> 13) \<or> n = 32 \<or> n = 160)"

definition js_trim :: "string \<Rightarrow> string" where
  "js_trim s = rev (dropWhile js_ws (rev (dropWhile js_ws s)))"

definition is_word_char :: "char \<Rightarrow> bool" where
  "is_word_char c =
     (let n = (of_char c :: nat) in
        (48 \<le> n \<and> n \<le> 57) \<or> (65 \<le> n \<and> n \<le> 90) \<or> (97 \<le> n \<and> n \<le> 122) \<or> n = 95)"

definition slug_char :: "char \<Rightarrow> char" where
  "slug_char c = (if is_word_char c then c else CHR ''_'')"

definition titleSlug :: "string option \<Rightarrow> string" where
  "titleSlug title =
     (if \<not> js_truthy title then []
      else take 251 (map slug_char (js_trim (js_str title))))"

subsection \<open>Lemmas\<close>

lemma word_char_not_ws: "is_word_char c \<Longrightarrow> \<not> js_ws c"
  by (auto simp: is_word_char_def js_ws_def Let_def)

lemma is_word_char_slug_char [simp]: "is_word_char (slug_char c)"
  by (simp add: slug_char_def is_word_char_def)

lemma slug_char_word [simp]: "is_word_char c \<Longrightarrow> slug_char c = c"
  by (simp add: slug_char_def)

lemma slash_not_word [simp]: "\<not> is_word_char CHR ''/''"
  by (simp add: is_word_char_def)

lemma dot_not_word [simp]: "\<not> is_word_char CHR ''.''"
  by (simp add: is_word_char_def)

lemma js_trim_words: "\<forall>c \<in> set s. is_word_char c \<Longrightarrow> js_trim s = s"
proof -
  assume w: "\<forall>c \<in> set s. is_word_char c"
  have drop_id: "\<And>xs. \<forall>c \<in> set xs. \<not> js_ws c \<Longrightarrow> dropWhile js_ws xs = xs"
    by (case_tac xs) simp_all
  from w have "\<forall>c \<in> set s. \<not> js_ws c" by (auto dest: word_char_not_ws)
  then show ?thesis by (simp add: js_trim_def drop_id)
qed

lemma js_trim_set: "set (js_trim s) \<subseteq> set s"
  by (auto simp: js_trim_def dest!: set_dropWhileD)

lemma titleSlug_Some: "s \<noteq> [] \<Longrightarrow> titleSlug (Some s) = take 251 (map slug_char (js_trim s))"
  by (simp add: titleSlug_def)

lemma titleSlug_word_chars: "\<forall>c \<in> set (titleSlug t). is_word_char c"
  by (auto simp: titleSlug_def dest!: in_set_takeD)

lemma titleSlug_no_slash: "CHR ''/'' \<notin> set (titleSlug t)"
  using titleSlug_word_chars [of t] by auto

lemma titleSlug_no_dot: "CHR ''.'' \<notin> set (titleSlug t)"
  using titleSlug_word_chars [of t] by auto

subsection \<open>Properties of titleSlug\<close>

text \<open>C26 A title slug is at most 251 characters long and consists of word characters
  only, so it can never introduce a path separator or a dot into a file name.\<close>

theorem titleSlug_bounds: "length (titleSlug t) \<le> 251 \<and> list_all is_word_char (titleSlug t)"
  using titleSlug_word_chars [of t] by (simp add: titleSlug_def list_all_iff)

text \<open>C37 Slugging is idempotent: the slug of a slug is the slug itself.\<close>

theorem titleSlug_idempotent: "titleSlug (Some (titleSlug t)) = titleSlug t"
proof (cases "titleSlug t = []")
  case True
  then show ?thesis by (simp add: titleSlug_def)
next
  case False
  have "take 251 (titleSlug t) = titleSlug t" by (simp add: titleSlug_def)
  then show ?thesis using False titleSlug_word_chars [of t]
    by (simp add: titleSlug_Some js_trim_words map_idI)
qed

text \<open>The example of the specification: \<open>My Test: Case #1\<close> slugs to
  \<open>My_Test__Case__1\<close> (the colon and the hash become underscores, the blanks too).\<close>

lemma titleSlug_spec_example: "titleSlug (Some ''My Test: Case #1'') = ''My_Test__Case__1''"
  by (simp add: titleSlug_def js_trim_def js_ws_def slug_char_def is_word_char_def)


end
