(* ===== verification/Path.thy ===== *)
theory Path
  imports Prelude
begin

text \<open>
  The Path Resolver (spec 4.2): the calls \<open>path.resolve(screenShotPath)\<close>,
  \<open>path.join(dir, name)\<close> and \<open>path.dirname(fullPath)\<close> of \<open>snap\<close> and \<open>source\<close>
  (\<open>src/index.js\<close> lines 157--161, 275--276, 289--293), with Node's POSIX semantics.
  A path is split at \<open>/\<close>; normalisation drops empty and \<open>.\<close> segments and lets
  \<open>..\<close> remove the segment before it (above the root it is dropped for an absolute path
  and kept for a relative one), as Node's \<open>normalizeString\<close> does character by
  character. \<open>dirname\<close> works on the raw string, as Node's does. \<open>cwd\<close> is
  \<open>process.cwd()\<close>, an absolute path.
\<close>

fun split_on :: "char \<Rightarrow> string \<Rightarrow> string list" where
  "split_on c [] = [[]]"
| "split_on c (x # xs) = (let r = split_on c xs in if x = c then [] # r else (x # hd r) # tl r)"

definition norm_step :: "bool \<Rightarrow> string list \<Rightarrow> string \<Rightarrow> string list" where
  "norm_step up st seg =
     (if seg = [] \<or> seg = ''.'' then st
      else if seg = ''..'' then
        (case st of
           last_seg # rest \<Rightarrow> if last_seg \<noteq> ''..'' then rest else if up then ''..'' # st else st
         | [] \<Rightarrow> if up then [''..''] else [])
      else seg # st)"

definition norm_segs :: "bool \<Rightarrow> string \<Rightarrow> string list" where
  "norm_segs up p = rev (foldl (norm_step up) [] (split_on CHR ''/'' p))"

definition path_resolve :: "string \<Rightarrow> string \<Rightarrow> string" where
  "path_resolve cwd p =
     (let full = (if p \<noteq> [] \<and> hd p = CHR ''/'' then p else cwd @ ''/'' @ p)
      in ''/'' @ join_with CHR ''/'' (norm_segs False full))"

definition path_normalize :: "string \<Rightarrow> string" where
  "path_normalize p =
     (if p = [] then ''.''
      else
        (let isAbs = (hd p = CHR ''/''); trail = (last p = CHR ''/'');
             segs = norm_segs (\<not> isAbs) p
         in if segs = [] then (if isAbs then ''/'' else if trail then ''./'' else ''.'')
            else (if isAbs then ''/'' else []) @ join_with CHR ''/'' segs @ (if trail then ''/'' else [])))"

definition path_join :: "string \<Rightarrow> string \<Rightarrow> string" where
  "path_join a b =
     (let parts = filter (\<lambda>x. x \<noteq> []) [a, b]
      in if parts = [] then ''.'' else path_normalize (join_with CHR ''/'' parts))"

definition path_dirname :: "string \<Rightarrow> string" where
  "path_dirname p =
     (if p = [] then ''.''
      else
        (let hasRoot = (hd p = CHR ''/'');
             t = dropWhile (\<lambda>c. c \<noteq> CHR ''/'') (dropWhile (\<lambda>c. c = CHR ''/'') (rev (tl p)))
         in if t = [] then (if hasRoot then ''/'' else ''.'')
            else if hasRoot \<and> length t = 1 then ''//'' else take (length t) p))"

text \<open>The segments of an absolute path, as the file system addresses it.\<close>

definition abs_segs :: "string \<Rightarrow> string list" where
  "abs_segs p = norm_segs False p"

text \<open>A segment that normalisation keeps as it is.\<close>

definition plain_seg :: "string \<Rightarrow> bool" where
  "plain_seg s = (s \<noteq> [] \<and> CHR ''/'' \<notin> set s \<and> s \<noteq> ''.'' \<and> s \<noteq> ''..'')"

definition seg_path :: "string list \<Rightarrow> string" where
  "seg_path ss = ''/'' @ join_with CHR ''/'' ss"

subsection \<open>Splitting\<close>

lemma split_on_no_sep: "c \<notin> set xs \<Longrightarrow> split_on c xs = [xs]"
  by (induction xs) (auto simp: Let_def)

lemma split_on_append_sep:
  "c \<notin> set xs \<Longrightarrow> split_on c (xs @ c # ys) = xs # split_on c ys"
  by (induction xs) (auto simp: Let_def)

lemma split_on_nonempty: "split_on c xs \<noteq> []"
  by (induction xs) (auto simp: Let_def)

lemma split_on_segments: "\<forall>s \<in> set (split_on c xs). c \<notin> set s"
proof (induction xs)
  case Nil
  then show ?case by simp
next
  case (Cons x xs)
  obtain h t where r: "split_on c xs = h # t"
    using split_on_nonempty [of c xs] by (cases "split_on c xs") auto
  with Cons show ?case by (auto simp: Let_def)
qed

lemma split_on_intercalate:
  "ss \<noteq> [] \<Longrightarrow> \<forall>s \<in> set ss. c \<notin> set s \<Longrightarrow> split_on c (join_with c ss) = ss"
proof (induction ss)
  case Nil
  then show ?case by simp
next
  case (Cons s ss)
  show ?case
  proof (cases ss)
    case Nil
    with Cons.prems show ?thesis by (simp add: split_on_no_sep)
  next
    case (Cons s' ss')
    then have "join_with c (s # ss) = s @ c # join_with c ss" by simp
    with Cons.IH Cons.prems \<open>ss = s' # ss'\<close> show ?thesis
      by (simp add: split_on_append_sep)
  qed
qed

subsection \<open>Normalisation\<close>

lemma norm_step_plain [simp]: "plain_seg s \<Longrightarrow> norm_step b st s = s # st"
  by (simp add: norm_step_def plain_seg_def)

lemma norm_step_empty [simp]: "norm_step b st [] = st"
  by (simp add: norm_step_def)

lemma foldl_norm_step_plain:
  "\<forall>s \<in> set ss. plain_seg s \<Longrightarrow> foldl (norm_step b) st ss = rev ss @ st"
  by (induction ss arbitrary: st) simp_all

lemma norm_step_False_cases:
  "CHR ''/'' \<notin> set s \<Longrightarrow>
   norm_step False st s = st \<or> norm_step False st s = tl st \<or>
   (norm_step False st s = s # st \<and> plain_seg s)"
  by (cases st) (simp_all add: norm_step_def plain_seg_def)

lemma norm_step_keeps_plain:
  "\<forall>x \<in> set st. plain_seg x \<Longrightarrow> CHR ''/'' \<notin> set s \<Longrightarrow>
   \<forall>x \<in> set (norm_step False st s). plain_seg x"
  using norm_step_False_cases [of s st] by (cases st) auto

lemma foldl_norm_step_keeps_plain:
  "\<forall>x \<in> set st. plain_seg x \<Longrightarrow> \<forall>s \<in> set xs. CHR ''/'' \<notin> set s \<Longrightarrow>
   \<forall>x \<in> set (foldl (norm_step False) st xs). plain_seg x"
proof (induction xs arbitrary: st)
  case Nil
  then show ?case by simp
next
  case (Cons s xs)
  from Cons.prems have st': "\<forall>x \<in> set (norm_step False st s). plain_seg x"
    by (intro norm_step_keeps_plain) simp_all
  from Cons.prems have "\<forall>s \<in> set xs. CHR ''/'' \<notin> set s" by simp
  with st' have "\<forall>x \<in> set (foldl (norm_step False) (norm_step False st s) xs). plain_seg x"
    by (rule Cons.IH)
  then show ?case by simp
qed

lemma norm_segs_plain: "\<forall>x \<in> set (norm_segs False p). plain_seg x"
  using foldl_norm_step_keeps_plain [of "[]" "split_on CHR ''/'' p"] split_on_segments
  by (simp add: norm_segs_def)

lemma plain_no_slash: "\<forall>s \<in> set ss. plain_seg s \<Longrightarrow> \<forall>s \<in> set ss. CHR ''/'' \<notin> set s"
  by (simp add: plain_seg_def)

lemma norm_segs_seg_path:
  assumes "\<forall>s \<in> set ss. plain_seg s"
  shows "norm_segs b (seg_path ss) = ss"
proof (cases ss)
  case Nil
  then show ?thesis by (simp add: norm_segs_def seg_path_def)
next
  case (Cons s ss')
  have split: "split_on CHR ''/'' (seg_path ss) = [] # ss"
    using split_on_intercalate [of ss "CHR ''/''"] plain_no_slash [OF assms] Cons
    by (simp add: seg_path_def)
  show ?thesis
    using assms by (simp add: norm_segs_def split foldl_norm_step_plain)
qed

lemma abs_segs_seg_path: "\<forall>s \<in> set ss. plain_seg s \<Longrightarrow> abs_segs (seg_path ss) = ss"
  by (simp add: abs_segs_def norm_segs_seg_path)

lemma path_resolve_seg_path: "path_resolve cwd p = seg_path (abs_segs (if p \<noteq> [] \<and> hd p = CHR ''/'' then p else cwd @ ''/'' @ p))"
  by (simp add: path_resolve_def seg_path_def abs_segs_def Let_def)

lemma abs_segs_plain: "\<forall>s \<in> set (abs_segs p). plain_seg s"
  by (simp add: abs_segs_def norm_segs_plain)

subsection \<open>Joining a plain name, and its directory\<close>

lemma join_with_snoc:
  "join_with c (ss @ [n]) = (if ss = [] then n else join_with c ss @ c # n)"
  by (induction c ss rule: join_with.induct) simp_all

lemma join_with_plain_nonempty:
  "\<forall>s \<in> set ss. plain_seg s \<Longrightarrow> ss \<noteq> [] \<Longrightarrow> join_with c ss \<noteq> []"
  by (induction c ss rule: join_with.induct) (auto simp: plain_seg_def)

lemma norm_segs_snoc:
  assumes ss: "\<forall>s \<in> set ss. plain_seg s" and n: "plain_seg n"
  shows "norm_segs b (seg_path ss @ CHR ''/'' # n) = ss @ [n]"
proof (cases "ss = []")
  case True
  with n show ?thesis
    by (simp add: norm_segs_def seg_path_def split_on_no_sep plain_seg_def)
next
  case False
  then have "seg_path ss @ CHR ''/'' # n = seg_path (ss @ [n])"
    by (simp add: seg_path_def join_with_snoc)
  with ss n show ?thesis by (simp add: norm_segs_seg_path)
qed

lemma path_join_plain:
  assumes ss: "\<forall>s \<in> set ss. plain_seg s" and n: "plain_seg n"
  shows "path_join (seg_path ss) n = seg_path (ss @ [n])"
proof -
  from n have n0: "n \<noteq> []" and nl: "last n \<noteq> CHR ''/''"
    by (auto simp: plain_seg_def dest: last_in_set)
  have N: "norm_segs False (CHR ''/'' # join_with CHR ''/'' ss @ CHR ''/'' # n) = ss @ [n]"
    using norm_segs_snoc [OF ss n] by (simp add: seg_path_def)
  show ?thesis
    using n0 nl N by (simp add: path_join_def path_normalize_def seg_path_def join_with_snoc)
qed

lemma path_dirname_plain:
  assumes ss: "\<forall>s \<in> set ss. plain_seg s" and n: "plain_seg n"
  shows "path_dirname (seg_path (ss @ [n])) = seg_path ss"
proof -
  from n have n0: "n \<noteq> []" and ns: "CHR ''/'' \<notin> set n" by (auto simp: plain_seg_def)
  have rn: "dropWhile (\<lambda>c. c = CHR ''/'') (rev n @ xs) = rev n @ xs" for xs
    using n0 ns by (cases "rev n") auto
  have rn2: "dropWhile (\<lambda>c. c \<noteq> CHR ''/'') (rev n @ xs) = dropWhile (\<lambda>c. c \<noteq> CHR ''/'') xs" for xs
    using ns by (subst dropWhile_append2) auto
  show ?thesis
  proof (cases "ss = []")
    case True
    then show ?thesis using rn [of "[]"] rn2 [of "[]"]
      by (simp add: path_dirname_def seg_path_def)
  next
    case False
    let ?J = "join_with CHR ''/'' ss"
    have J: "?J \<noteq> []" using join_with_plain_nonempty [OF ss False] .
    have "rev (tl (seg_path (ss @ [n]))) = rev n @ CHR ''/'' # rev ?J"
      using False by (simp add: seg_path_def join_with_snoc)
    then show ?thesis using rn rn2 J False
      by (simp add: path_dirname_def seg_path_def join_with_snoc)
  qed
qed
subsection \<open>Join and dirname\<close>



end
