(* ===== verification/FS.thy ===== *)
theory FS
  imports Path
begin

text \<open>
  The file system as the plugin uses it: \<open>mkdirp.sync(dir)\<close> (the mkdirp 0.5 package,
  called at \<open>src/index.js\<close> lines 161 and 293) and \<open>fs.writeFile(path, data, cb)\<close>
  (lines 176, 278, 299). Paths are addressed by their segment lists (\<open>abs_segs\<close> of
  the absolute path). A state holds the directories, the files with their contents, and
  the directories in which no entry may be created (the permission failure of spec 4.2).
  \<open>mkdir_sync\<close> is one \<open>fs.mkdirSync\<close> call with the POSIX error order (path lookup,
  then existence, then permission). \<open>mkdirp_sync\<close> is mkdirp's recursion: on
  \<open>ENOENT\<close> it makes the parent and then retries the directory; any other error is
  ignored when the path is already a directory and rethrown otherwise.
\<close>

text \<open>File contents: decoded base64, a string of characters, or a JavaScript string (UTF-16
  code units) written with \<open>fs.writeFile\<close>'s default \<open>utf8\<close> encoding.\<close>

datatype fdata = Base64Decoded string | Utf8Text string | Utf8Units u16string

record fsys =
  dirs :: "string list set"
  files :: "string list \<Rightarrow> fdata option"
  no_create :: "string list set"

abbreviation ENOENT :: js_err where "ENOENT \<equiv> JsError ''ENOENT''"
abbreviation EEXIST :: js_err where "EEXIST \<equiv> JsError ''EEXIST''"
abbreviation ENOTDIR :: js_err where "ENOTDIR \<equiv> JsError ''ENOTDIR''"
abbreviation EACCES :: js_err where "EACCES \<equiv> JsError ''EACCES''"
abbreviation EISDIR :: js_err where "EISDIR \<equiv> JsError ''EISDIR''"

text \<open>Some proper ancestor of the path is a regular file.\<close>

definition ancestor_file :: "fsys \<Rightarrow> string list \<Rightarrow> bool" where
  "ancestor_file fs segs = (\<exists>k \<in> set [0..<length segs]. files fs (take k segs) \<noteq> None)"

definition mkdir_sync :: "fsys \<Rightarrow> string list \<Rightarrow> js_err + fsys" where
  "mkdir_sync fs segs =
     (if segs = [] then Inl EEXIST
      else if ancestor_file fs segs then Inl ENOTDIR
      else if butlast segs \<notin> dirs fs then Inl ENOENT
      else if segs \<in> dirs fs \<or> files fs segs \<noteq> None then Inl EEXIST
      else if butlast segs \<in> no_create fs then Inl EACCES
      else Inr (fs\<lparr>dirs := insert segs (dirs fs)\<rparr>))"

text \<open>mkdirp's handler for an error other than \<open>ENOENT\<close>: \<open>statSync(p)\<close>; a
  directory is success, anything else rethrows the error of \<open>mkdirSync\<close>.\<close>

definition mkdirp_handle :: "fsys \<Rightarrow> string list \<Rightarrow> js_err + fsys \<Rightarrow> js_err + fsys" where
  "mkdirp_handle fs segs r =
     (case r of Inr fs' \<Rightarrow> Inr fs' | Inl e \<Rightarrow> if segs \<in> dirs fs then Inr fs else Inl e)"

text \<open>
  The retry \<open>sync(p)\<close> after the parent was made is \<open>mkdirp_handle\<close> of one more
  \<open>mkdirSync\<close>: its \<open>ENOENT\<close> branch cannot be taken once the parent is a directory
  (lemma \<open>mkdir_sync_parent_not_ENOENT\<close>). The root (\<open>segs = []\<close>) never recurses:
  \<open>mkdirSync('/')\<close> fails with \<open>EEXIST\<close>, which the handler turns into success.
\<close>

fun mkdirp_sync :: "fsys \<Rightarrow> string list \<Rightarrow> js_err + fsys" where
  "mkdirp_sync fs segs =
     (if segs = [] then mkdirp_handle fs segs (mkdir_sync fs segs)
      else
        (case mkdir_sync fs segs of
           Inr fs' \<Rightarrow> Inr fs'
         | Inl e \<Rightarrow>
             if e = ENOENT then
               (case mkdirp_sync fs (butlast segs) of
                  Inl e' \<Rightarrow> Inl e'
                | Inr fs' \<Rightarrow> mkdirp_handle fs' segs (mkdir_sync fs' segs))
             else mkdirp_handle fs segs (Inl e)))"

declare mkdirp_sync.simps [simp del]

definition write_file :: "fsys \<Rightarrow> string list \<Rightarrow> fdata \<Rightarrow> js_err + fsys" where
  "write_file fs segs d =
     (if segs = [] then Inl EISDIR
      else if ancestor_file fs segs then Inl ENOTDIR
      else if butlast segs \<notin> dirs fs then Inl ENOENT
      else if segs \<in> dirs fs then Inl EISDIR
      else if files fs segs = None \<and> butlast segs \<in> no_create fs then Inl EACCES
      else Inr (fs\<lparr>files := (files fs)(segs \<mapsto> d)\<rparr>))"

text \<open>Well-formed file system: the root is a directory, directories are closed under
  parents, every file sits in a directory, and nothing is both a file and a directory.\<close>

definition fs_inv :: "fsys \<Rightarrow> bool" where
  "fs_inv fs =
     ([] \<in> dirs fs \<and> (\<forall>p \<in> dirs fs. butlast p \<in> dirs fs) \<and>
      (\<forall>p \<in> dom (files fs). p \<noteq> [] \<and> butlast p \<in> dirs fs) \<and>
      (\<forall>p \<in> dirs fs. files fs p = None))"

text \<open>The contract of \<open>mkdirp.sync(d)\<close> on a well-formed file system: when no prefix of
  \<open>d\<close> is a file and every missing prefix may be created in its parent, the result is the
  file system with every prefix of \<open>d\<close> a directory; otherwise it fails.\<close>

definition prefixes_of :: "string list \<Rightarrow> string list list" where
  "prefixes_of segs = map (\<lambda>k. take k segs) [0..<Suc (length segs)]"

definition mkdirp_spec :: "fsys \<Rightarrow> string list \<Rightarrow> fsys option" where
  "mkdirp_spec fs segs =
     (if list_all (\<lambda>p. files fs p = None \<and> (p \<notin> dirs fs \<longrightarrow> butlast p \<notin> no_create fs)) (prefixes_of segs)
      then Some (fs\<lparr>dirs := dirs fs \<union> set (prefixes_of segs)\<rparr>) else None)"

text \<open>A concrete file system: the directories \<open>/\<close>, \<open>/home\<close> and \<open>/home/u\<close>, no files.\<close>

definition ex_fs :: fsys where
  "ex_fs = \<lparr>dirs = {[], [''home''], [''home'', ''u'']}, files = Map.empty, no_create = {}\<rparr>"

subsection \<open>Lemmas\<close>

lemma mkdir_sync_Inr:
  "mkdir_sync fs segs = Inr fs' \<Longrightarrow>
   fs' = fs\<lparr>dirs := insert segs (dirs fs)\<rparr> \<and> segs \<noteq> [] \<and> butlast segs \<in> dirs fs \<and>
   files fs segs = None"
  by (simp add: mkdir_sync_def split: if_splits)

lemma mkdirp_sync_root [simp]: "mkdirp_sync fs [] = mkdirp_handle fs [] (mkdir_sync fs [])"
  by (simp add: mkdirp_sync.simps)

lemma mkdirp_sync_step:
  "segs \<noteq> [] \<Longrightarrow> mkdirp_sync fs segs =
     (case mkdir_sync fs segs of
        Inr fs' \<Rightarrow> Inr fs'
      | Inl e \<Rightarrow>
          if e = ENOENT then
            (case mkdirp_sync fs (butlast segs) of
               Inl e' \<Rightarrow> Inl e'
             | Inr fs' \<Rightarrow> mkdirp_handle fs' segs (mkdir_sync fs' segs))
          else mkdirp_handle fs segs (Inl e))"
  by (simp add: mkdirp_sync.simps [of fs segs])

lemma mkdir_sync_parent_not_ENOENT:
  "butlast segs \<in> dirs fs \<Longrightarrow> mkdir_sync fs segs \<noteq> Inl ENOENT"
  by (simp add: mkdir_sync_def)

lemma mkdirp_handle_cases:
  "mkdirp_handle fs segs r = Inr fs' \<Longrightarrow> r = Inr fs' \<or> (segs \<in> dirs fs \<and> fs' = fs)"
  by (auto simp: mkdirp_handle_def split: sum.splits if_splits)

lemma fs_inv_mkdir_sync:
  "fs_inv fs \<Longrightarrow> mkdir_sync fs segs = Inr fs' \<Longrightarrow> fs_inv fs'"
  by (drule mkdir_sync_Inr) (auto simp: fs_inv_def)

lemma dirs_take: "fs_inv fs \<Longrightarrow> p \<in> dirs fs \<Longrightarrow> take k p \<in> dirs fs"
proof (induction p arbitrary: k rule: rev_induct)
  case Nil
  then show ?case by (simp add: fs_inv_def)
next
  case (snoc x xs)
  from snoc.prems have "xs \<in> dirs fs" by (force simp: fs_inv_def)
  with snoc.IH snoc.prems show ?case by (cases "k \<le> length xs") simp_all
qed

lemma no_ancestor_file:
  "fs_inv fs \<Longrightarrow> butlast p \<in> dirs fs \<Longrightarrow> \<not> ancestor_file fs p"
proof -
  assume inv: "fs_inv fs" and bp: "butlast p \<in> dirs fs"
  have "files fs (take k p) = None" if "k < length p" for k
  proof -
    from that have "take k p = take k (butlast p)" by (simp add: take_butlast)
    with dirs_take [OF inv bp, of k] inv show ?thesis by (simp add: fs_inv_def)
  qed
  then show ?thesis by (auto simp: ancestor_file_def)
qed

lemma mkdirp_sync_cases:
  "mkdirp_sync fs segs = Inr fs' \<Longrightarrow>
     (fs' = fs \<and> segs \<in> dirs fs) \<or> mkdir_sync fs segs = Inr fs' \<or>
     (\<exists>fs1. segs \<noteq> [] \<and> mkdir_sync fs segs = Inl ENOENT \<and>
            mkdirp_sync fs (butlast segs) = Inr fs1 \<and>
            (mkdir_sync fs1 segs = Inr fs' \<or> (fs' = fs1 \<and> segs \<in> dirs fs1)))"
  by (cases "segs = []")
     (auto simp: mkdirp_sync_step mkdirp_handle_def split: sum.splits if_splits)

definition fs_grows :: "fsys \<Rightarrow> fsys \<Rightarrow> bool" where
  "fs_grows fs fs' = (dirs fs \<subseteq> dirs fs' \<and> files fs' = files fs \<and> no_create fs' = no_create fs)"

lemma fs_grows_refl [simp]: "fs_grows fs fs"
  by (simp add: fs_grows_def)

lemma fs_grows_trans: "fs_grows a b \<Longrightarrow> fs_grows b c \<Longrightarrow> fs_grows a c"
  by (auto simp: fs_grows_def)

lemma fs_grows_mkdir_sync: "mkdir_sync fs segs = Inr fs' \<Longrightarrow> fs_grows fs fs'"
  by (auto simp: fs_grows_def dest: mkdir_sync_Inr)

lemma mkdirp_sync_grows: "mkdirp_sync fs segs = Inr fs' \<Longrightarrow> fs_grows fs fs'"
proof (induction fs segs arbitrary: fs' rule: mkdirp_sync.induct)
  case (1 fs segs)
  from mkdirp_sync_cases [OF "1.prems"] show ?case
  proof (elim disjE exE conjE)
    fix fs1 assume ne: "segs \<noteq> []" and e: "mkdir_sync fs segs = Inl ENOENT"
      and r: "mkdirp_sync fs (butlast segs) = Inr fs1"
    have g: "fs_grows fs fs1" using "1.IH"(1) [OF ne e refl r] .
    { assume "mkdir_sync fs1 segs = Inr fs'"
      then show ?case using g by (blast intro: fs_grows_trans fs_grows_mkdir_sync) }
    { assume "fs' = fs1" then show ?case using g by simp }
  qed (auto intro: fs_grows_mkdir_sync)
qed

lemma fs_inv_mkdirp_sync:
  "fs_inv fs \<Longrightarrow> mkdirp_sync fs segs = Inr fs' \<Longrightarrow> fs_inv fs'"
proof (induction fs segs arbitrary: fs' rule: mkdirp_sync.induct)
  case (1 fs segs)
  from mkdirp_sync_cases [OF "1.prems"(2)] show ?case
  proof (elim disjE exE conjE)
    fix fs1 assume ne: "segs \<noteq> []" and e: "mkdir_sync fs segs = Inl ENOENT"
      and r: "mkdirp_sync fs (butlast segs) = Inr fs1"
    have i1: "fs_inv fs1" using "1.IH"(1) [OF ne e refl "1.prems"(1) r] .
    { assume "mkdir_sync fs1 segs = Inr fs'"
      with i1 show ?case by (rule fs_inv_mkdir_sync) }
    { assume "fs' = fs1" then show ?case using i1 by simp }
  qed (use "1.prems" in \<open>auto intro: fs_inv_mkdir_sync\<close>)
qed

lemma mkdirp_sync_dir:
  "fs_inv fs \<Longrightarrow> mkdirp_sync fs segs = Inr fs' \<Longrightarrow> segs \<in> dirs fs'"
  using mkdirp_sync_cases [of fs segs fs'] by (auto dest: mkdir_sync_Inr)

lemma mkdirp_sync_chain:
  "fs_inv fs \<Longrightarrow> mkdirp_sync fs segs = Inr fs' \<Longrightarrow> take k segs \<in> dirs fs'"
  by (rule dirs_take) (auto intro: fs_inv_mkdirp_sync mkdirp_sync_dir)

lemma mkdirp_sync_existing:
  assumes inv: "fs_inv fs" and d: "segs \<in> dirs fs"
  shows "mkdirp_sync fs segs = Inr fs"
proof (cases "segs = []")
  case True
  with inv show ?thesis by (simp add: mkdir_sync_def mkdirp_handle_def fs_inv_def)
next
  case False
  from inv d have bp: "butlast segs \<in> dirs fs" by (simp add: fs_inv_def)
  with inv False d have "mkdir_sync fs segs = Inl EEXIST"
    by (simp add: mkdir_sync_def no_ancestor_file)
  with False d show ?thesis by (simp add: mkdirp_sync_step mkdirp_handle_def)
qed

lemma write_file_Inr:
  "write_file fs segs d = Inr fs' \<Longrightarrow>
   fs' = fs\<lparr>files := (files fs)(segs \<mapsto> d)\<rparr> \<and> segs \<noteq> [] \<and> butlast segs \<in> dirs fs \<and> segs \<notin> dirs fs"
  by (simp add: write_file_def split: if_splits)

lemma fs_inv_write_file:
  "fs_inv fs \<Longrightarrow> write_file fs segs d = Inr fs' \<Longrightarrow> fs_inv fs'"
  by (drule write_file_Inr) (auto simp: fs_inv_def)

lemma write_file_ok:
  assumes "fs_inv fs" "segs \<noteq> []" "butlast segs \<in> dirs fs" "segs \<notin> dirs fs"
    "butlast segs \<notin> no_create fs"
  shows "write_file fs segs d = Inr (fs\<lparr>files := (files fs)(segs \<mapsto> d)\<rparr>)"
  using assms by (simp add: write_file_def no_ancestor_file)

lemma mkdirp_sync_new_dirs:
  "mkdirp_sync fs segs = Inr fs' \<Longrightarrow> p \<in> dirs fs' \<Longrightarrow> p \<in> dirs fs \<or> (\<exists>k. p = take k segs)"
proof (induction fs segs arbitrary: fs' p rule: mkdirp_sync.induct)
  case (1 fs segs)
  have step: "mkdir_sync f segs = Inr f' \<Longrightarrow> p \<in> dirs f' \<Longrightarrow> p \<in> dirs f \<or> p = take (length segs) segs"
    for f f' by (auto dest: mkdir_sync_Inr)
  from mkdirp_sync_cases [OF "1.prems"(1)] show ?case
  proof (elim disjE exE conjE)
    fix fs1 assume ne: "segs \<noteq> []" and e: "mkdir_sync fs segs = Inl ENOENT"
      and r: "mkdirp_sync fs (butlast segs) = Inr fs1"
    have ih: "q \<in> dirs fs1 \<Longrightarrow> q \<in> dirs fs \<or> (\<exists>k. q = take k segs)" for q
      using "1.IH"(1) [OF ne e refl r, of q] by (auto simp: butlast_conv_take take_take)
    { assume "mkdir_sync fs1 segs = Inr fs'"
      from step [OF this "1.prems"(2)] ih show ?case by blast }
    { assume "fs' = fs1" with ih "1.prems"(2) show ?case by blast }
  qed (use "1.prems" step in blast)+
qed

lemma set_prefixes_of: "set (prefixes_of segs) = range (\<lambda>k. take k segs)"
  unfolding prefixes_of_def
proof (intro equalityI subsetI)
  fix p assume "p \<in> range (\<lambda>k. take k segs)"
  then obtain k where p: "p = take k segs" by blast
  show "p \<in> set (map (\<lambda>k. take k segs) [0..<Suc (length segs)])"
  proof (cases "k \<le> length segs")
    case True with p show ?thesis by auto
  next
    case False
    with p have "p = take (length segs) segs" by simp
    then show ?thesis by (simp only: set_map) (rule imageI, simp)
  qed
qed (auto simp: image_iff intro: exI [of _ "length segs"])

lemma mkdir_sync_Inr_allowed: "mkdir_sync fs segs = Inr fs' \<Longrightarrow> butlast segs \<notin> no_create fs"
  by (simp add: mkdir_sync_def split: if_splits)

lemma mkdirp_sync_allowed:
  "mkdirp_sync fs segs = Inr fs' \<Longrightarrow> p \<in> dirs fs' \<Longrightarrow> p \<notin> dirs fs \<Longrightarrow> butlast p \<notin> no_create fs"
proof (induction fs segs arbitrary: fs' p rule: mkdirp_sync.induct)
  case (1 fs segs)
  have step: "mkdir_sync f segs = Inr f' \<Longrightarrow> p \<in> dirs f' \<Longrightarrow> p \<notin> dirs f \<Longrightarrow> butlast p \<notin> no_create f"
    for f f' by (frule mkdir_sync_Inr_allowed) (auto dest: mkdir_sync_Inr)
  from mkdirp_sync_cases [OF "1.prems"(1)] show ?case
  proof (elim disjE exE conjE)
    fix fs1 assume ne: "segs \<noteq> []" and e: "mkdir_sync fs segs = Inl ENOENT"
      and r: "mkdirp_sync fs (butlast segs) = Inr fs1"
    have ih: "q \<in> dirs fs1 \<Longrightarrow> q \<notin> dirs fs \<Longrightarrow> butlast q \<notin> no_create fs" for q
      using "1.IH"(1) [OF ne e refl r] .
    have g: "fs_grows fs fs1" by (rule mkdirp_sync_grows [OF r])
    { assume m: "mkdir_sync fs1 segs = Inr fs'"
      show ?case
      proof (cases "p \<in> dirs fs1")
        case True with ih "1.prems"(3) show ?thesis by blast
      next
        case False with step [OF m "1.prems"(2)] g show ?thesis by (simp add: fs_grows_def)
      qed }
    { assume "fs' = fs1" with ih "1.prems"(2,3) show ?case by blast }
  qed (use "1.prems" step in blast)+
qed

lemma mkdirp_sync_result:
  assumes inv: "fs_inv fs" and r: "mkdirp_sync fs segs = Inr fs'"
  shows "mkdirp_spec fs segs = Some fs'"
proof -
  have g: "fs_grows fs fs'" by (rule mkdirp_sync_grows [OF r])
  have inv': "fs_inv fs'" by (rule fs_inv_mkdirp_sync [OF inv r])
  have ch: "take k segs \<in> dirs fs'" for k by (rule mkdirp_sync_chain [OF inv r])
  have d: "dirs fs' = dirs fs \<union> range (\<lambda>k. take k segs)"
    using g ch mkdirp_sync_new_dirs [OF r] by (auto simp: fs_grows_def)
  have f: "files fs (take k segs) = None" for k
    using ch [of k] inv' g by (simp add: fs_inv_def fs_grows_def)
  have a: "take k segs \<notin> dirs fs \<Longrightarrow> butlast (take k segs) \<notin> no_create fs" for k
    by (rule mkdirp_sync_allowed [OF r ch])
  have "fs' = fs\<lparr>dirs := dirs fs \<union> range (\<lambda>k. take k segs)\<rparr>"
    using d g by (cases fs, cases fs') (simp add: fs_grows_def)
  with f a show ?thesis by (auto simp: mkdirp_spec_def list_all_iff set_prefixes_of)
qed


lemma mkdir_handle_ok:
  "fs_inv f \<Longrightarrow> segs \<noteq> [] \<Longrightarrow> butlast segs \<in> dirs f \<Longrightarrow> files f segs = None \<Longrightarrow>
   (segs \<notin> dirs f \<longrightarrow> butlast segs \<notin> no_create f) \<Longrightarrow> \<exists>f'. mkdirp_handle f segs (mkdir_sync f segs) = Inr f'"
  by (auto simp: mkdir_sync_def mkdirp_handle_def no_ancestor_file)

lemma take_butlast_take: "take k (butlast segs) = take (min k (length segs - 1)) segs"
  by (simp add: butlast_conv_take take_take)

lemma mkdirp_sync_succeeds:
  "fs_inv fs \<Longrightarrow> \<forall>k. files fs (take k segs) = None \<and> (take k segs \<notin> dirs fs \<longrightarrow> butlast (take k segs) \<notin> no_create fs) \<Longrightarrow>
   \<exists>fs'. mkdirp_sync fs segs = Inr fs'"
proof (induction fs segs rule: mkdirp_sync.induct)
  case (1 fs segs)
  note inv = "1.prems"(1) and ok = "1.prems"(2)
  show ?case
  proof (cases "segs = []")
    case True
    with inv show ?thesis by (simp add: mkdir_sync_def mkdirp_handle_def fs_inv_def)
  next
    case ne: False
    have fseg: "files fs segs = None" and aseg: "segs \<notin> dirs fs \<longrightarrow> butlast segs \<notin> no_create fs"
      using ok [rule_format, of "length segs"] by simp_all
    show ?thesis
    proof (cases "butlast segs \<in> dirs fs")
      case True
      from mkdir_handle_ok [OF inv ne True fseg aseg] obtain f' where
        h: "mkdirp_handle fs segs (mkdir_sync fs segs) = Inr f'" ..
      then show ?thesis using ne True
        by (cases "mkdir_sync fs segs") (auto simp: mkdirp_sync_step mkdir_sync_parent_not_ENOENT mkdirp_handle_def)
    next
      case False
      have noanc: "\<not> ancestor_file fs segs" using ok by (auto simp: ancestor_file_def)
      have e: "mkdir_sync fs segs = Inl ENOENT" using ne noanc False by (simp add: mkdir_sync_def)
      have ok1: "\<forall>k. files fs (take k (butlast segs)) = None \<and>
          (take k (butlast segs) \<notin> dirs fs \<longrightarrow> butlast (take k (butlast segs)) \<notin> no_create fs)"
        using ok by (simp add: take_butlast_take)
      obtain fs1 where r: "mkdirp_sync fs (butlast segs) = Inr fs1"
        using "1.IH"(1) [OF ne e refl inv ok1] ..
      have g: "fs_grows fs fs1" by (rule mkdirp_sync_grows [OF r])
      have inv1: "fs_inv fs1" by (rule fs_inv_mkdirp_sync [OF inv r])
      have b1: "butlast segs \<in> dirs fs1" by (rule mkdirp_sync_dir [OF inv r])
      have "segs \<notin> dirs fs1 \<longrightarrow> butlast segs \<notin> no_create fs1" using aseg g by (auto simp: fs_grows_def)
      with mkdir_handle_ok [OF inv1 ne b1] fseg g obtain f' where
        "mkdirp_handle fs1 segs (mkdir_sync fs1 segs) = Inr f'" by (auto simp: fs_grows_def)
      with ne e r show ?thesis by (simp add: mkdirp_sync_step)
    qed
  qed
qed

subsection \<open>Steps of the file system\<close>

text \<open>What a plugin operation may do to the file system: add directories and files, overwrite
  files, never remove anything or change permissions; \<open>fs_step\<close> also keeps the invariant.\<close>

definition fs_mono :: "fsys \<Rightarrow> fsys \<Rightarrow> bool" where
  "fs_mono fs fs' = (dirs fs \<subseteq> dirs fs' \<and> dom (files fs) \<subseteq> dom (files fs') \<and> no_create fs' = no_create fs)"

definition fs_step :: "fsys \<Rightarrow> fsys \<Rightarrow> bool" where
  "fs_step fs fs' = (fs_inv fs' \<and> fs_mono fs fs')"

lemma fs_step_refl: "fs_inv fs \<Longrightarrow> fs_step fs fs"
  by (simp add: fs_step_def fs_mono_def)

lemma fs_step_trans: "fs_step a b \<Longrightarrow> fs_step b c \<Longrightarrow> fs_step a c"
  unfolding fs_step_def fs_mono_def by (blast intro: order_trans)

lemma fs_mono_trans: "fs_mono a b \<Longrightarrow> fs_mono b c \<Longrightarrow> fs_mono a c"
  unfolding fs_mono_def by (blast intro: order_trans)

lemma fs_step_inv: "fs_step fs fs' \<Longrightarrow> fs_inv fs'"
  by (simp add: fs_step_def)

lemma fs_step_mkdirp: "fs_inv fs \<Longrightarrow> mkdirp_sync fs segs = Inr fs' \<Longrightarrow> fs_step fs fs'"
  using mkdirp_sync_grows [of fs segs fs']
  by (auto simp: fs_step_def fs_mono_def fs_grows_def intro: fs_inv_mkdirp_sync)

lemma fs_step_write: "fs_inv fs \<Longrightarrow> write_file fs segs d = Inr fs' \<Longrightarrow> fs_step fs fs'"
  using write_file_Inr [of fs segs d fs']
  by (auto simp: fs_step_def fs_mono_def intro: fs_inv_write_file)

lemma fs_step_mkdirp_write:
  "fs_inv fs \<Longrightarrow> mkdirp_sync fs s1 = Inr fs1 \<Longrightarrow> write_file fs1 s2 d = Inr fs2 \<Longrightarrow> fs_step fs fs2"
  by (meson fs_step_mkdirp fs_step_write fs_step_trans fs_step_inv)

lemma fs_step_then_mkdirp: "fs_step a b \<Longrightarrow> mkdirp_sync b segs = Inr c \<Longrightarrow> fs_step a c"
  by (meson fs_step_mkdirp fs_step_trans fs_step_inv)

lemma fs_step_then_write: "fs_step a b \<Longrightarrow> write_file b segs d = Inr c \<Longrightarrow> fs_step a c"
  by (meson fs_step_write fs_step_trans fs_step_inv)

lemma fs_step_write_mkdirp:
  "fs_inv a \<Longrightarrow> write_file a s1 d1 = Inr b \<Longrightarrow> mkdirp_sync b s2 = Inr c \<Longrightarrow> fs_step a c"
  by (meson fs_step_write fs_step_then_mkdirp)

lemma fs_step_write_mkdirp_write:
  "fs_inv a \<Longrightarrow> write_file a s1 d1 = Inr b \<Longrightarrow> mkdirp_sync b s2 = Inr c \<Longrightarrow> write_file c s3 d3 = Inr e \<Longrightarrow>
   fs_step a e"
  by (meson fs_step_write_mkdirp fs_step_then_write)

subsection \<open>The concrete file system\<close>

lemma ex_fs_inv: "fs_inv ex_fs" by (simp add: fs_inv_def ex_fs_def)

lemma ex_fs_mkdirp:
  "mkdirp_sync ex_fs [''home'', ''u'', ''report''] =
   Inr (ex_fs\<lparr>dirs := insert [''home'', ''u'', ''report''] (dirs ex_fs)\<rparr>)"
  by (simp add: ex_fs_def mkdirp_sync.simps mkdir_sync_def ancestor_file_def)

subsection \<open>Properties of mkdirp\<close>

text \<open>After a successful \<open>mkdirp.sync(d)\<close> every prefix of \<open>d\<close> is a directory, the
  invariant still holds, no file was touched and no directory removed.\<close>

lemma mkdirp_creates_chain:
  "fs_inv fs \<Longrightarrow> mkdirp_sync fs segs = Inr fs' \<Longrightarrow>
   fs_inv fs' \<and> (\<forall>k. take k segs \<in> dirs fs') \<and> files fs' = files fs \<and> dirs fs \<subseteq> dirs fs'"
  using mkdirp_sync_grows [of fs segs fs']
  by (auto simp: fs_grows_def intro: fs_inv_mkdirp_sync mkdirp_sync_chain)






end
