(* ===== verification/Jenkins.thy ===== *)
theory Jenkins
  imports Prelude
begin

text \<open>
  \<open>formatJenkinsImageUrls(screenShotPath, imageName)\<close> (\<open>src/index.js\<close> lines
  66--99). It reads four environment variables, logs a line when \<open>WORKSPACE\<close> or
  \<open>JOB_NAME\<close> is missing, and returns \<open>null\<close> or an object with the workspace URL
  and the archived-artifact URL, either of which may be \<open>undefined\<close>. The relative path
  is \<open>screenShotPath.substr(workspace.length)\<close>: the configured screenshot directory
  with as many leading characters dropped as the workspace path has, whether or not it
  starts with the workspace path. The model returns the lines logged with the result.
\<close>

record jenv =
  JENKINS_URL :: "string option"
  BUILD_URL :: "string option"
  JOB_NAME :: "string option"
  WORKSPACE :: "string option"

record image_urls =
  imageUrl :: "string option"
  archivedImageUrl :: "string option"

definition msg_no_workspace :: string where
  "msg_no_workspace = ''nemo-screenshot was unable to format Jenkins image URLs: '' @
     ''WORKSPACE env variable is not defined''"

definition msg_no_job :: string where
  "msg_no_job = ''nemo-screenshot was unable to format Jenkins workspace image URL: '' @
     ''JOB_NAME env variable is not defined''"

definition formatJenkinsImageUrls :: "jenv \<Rightarrow> string \<Rightarrow> string \<Rightarrow> string list \<times> image_urls option" where
  "formatJenkinsImageUrls env screenShotPath imageName =
     (let jenkinsUrl = JENKINS_URL env; buildUrl = BUILD_URL env;
          jobName = JOB_NAME env; workspace = WORKSPACE env
      in if \<not> js_truthy workspace then ([msg_no_workspace], None)
         else
           (let relImagePath = drop (length (js_str workspace)) screenShotPath;
                img = (if js_truthy jobName
                       then Some (js_str jenkinsUrl @ ''job/'' @ js_str jobName @ ''/ws'' @
                                  relImagePath @ ''/'' @ imageName)
                       else None);
                logs = (if js_truthy jobName then [] else [msg_no_job]);
                arch = (if js_truthy buildUrl
                        then Some (js_str buildUrl @ ''artifact'' @ relImagePath @ ''/'' @ imageName)
                        else None)
            in (logs, if js_truthy img \<or> js_truthy arch
                      then Some \<lparr>imageUrl = img, archivedImageUrl = arch\<rparr> else None)))"

subsection \<open>Lemmas\<close>

lemma formatJenkins_no_ws:
  "\<not> js_truthy (WORKSPACE env) \<Longrightarrow>
   formatJenkinsImageUrls env p n = ([msg_no_workspace], None)"
  by (simp add: formatJenkinsImageUrls_def)

lemma formatJenkins_ws:
  assumes "WORKSPACE env = Some w" and "w \<noteq> []"
  shows "formatJenkinsImageUrls env p n =
    (if js_truthy (JOB_NAME env) then [] else [msg_no_job],
     if js_truthy (JOB_NAME env) \<or> js_truthy (BUILD_URL env)
     then Some \<lparr>imageUrl = (if js_truthy (JOB_NAME env)
                           then Some (js_str (JENKINS_URL env) @ ''job/'' @ js_str (JOB_NAME env) @
                                      ''/ws'' @ drop (length w) p @ ''/'' @ n) else None),
                archivedImageUrl = (if js_truthy (BUILD_URL env)
                           then Some (js_str (BUILD_URL env) @ ''artifact'' @ drop (length w) p @
                                      ''/'' @ n) else None)\<rparr>
     else None)"
  using assms by (simp add: formatJenkinsImageUrls_def Let_def)

subsection \<open>Properties of formatJenkinsImageUrls\<close>

text \<open>C30 Without a \<open>WORKSPACE\<close> the formatter logs that it cannot build URLs and returns
  nothing, whatever the other variables.\<close>

theorem jenkins_no_workspace:
  "\<not> js_truthy (WORKSPACE je) \<Longrightarrow> formatJenkinsImageUrls je p n = ([msg_no_workspace], None)"
  by (rule formatJenkins_no_ws)

theorem jenkins_no_workspace_witness:
  "\<not> js_truthy (WORKSPACE \<lparr>JENKINS_URL = Some ''http://ci/'', BUILD_URL = Some ''http://ci/job/j/1/'', JOB_NAME = Some ''j'', WORKSPACE = None\<rparr>) \<and> formatJenkinsImageUrls \<lparr>JENKINS_URL = Some ''http://ci/'', BUILD_URL = Some ''http://ci/job/j/1/'', JOB_NAME = Some ''j'', WORKSPACE = None\<rparr> ''/w/report'' ''x.png'' = ([msg_no_workspace], None)"
  using jenkins_no_workspace [of "\<lparr>JENKINS_URL = Some ''http://ci/'', BUILD_URL = Some ''http://ci/job/j/1/'', JOB_NAME = Some ''j'', WORKSPACE = None\<rparr>" "''/w/report''" "''x.png''"] by simp

text \<open>C29 For a screenshot directory inside the workspace, the workspace URL is
  \<open>JENKINS_URL + 'job/' + JOB_NAME + '/ws' + rel + '/' + name\<close> and the archived URL is
  \<open>BUILD_URL + 'artifact' + rel + '/' + name\<close>, where \<open>rel\<close> is the directory relative to the
  workspace, and nothing is logged.\<close>

theorem jenkins_relative_urls:
  assumes "WORKSPACE je = Some w" "w \<noteq> []" "JOB_NAME je = Some j" "j \<noteq> []"
    "BUILD_URL je = Some b" "b \<noteq> []" "p = w @ rel"
  shows "formatJenkinsImageUrls je p n =
    ([], Some \<lparr>imageUrl = Some (js_str (JENKINS_URL je) @ ''job/'' @ j @ ''/ws'' @ rel @ ''/'' @ n),
               archivedImageUrl = Some (b @ ''artifact'' @ rel @ ''/'' @ n)\<rparr>)"
  using assms by (simp add: formatJenkins_ws)

theorem jenkins_relative_urls_witness:
  "formatJenkinsImageUrls \<lparr>JENKINS_URL = Some ''http://ci/'', BUILD_URL = Some ''http://ci/job/j/7/'', JOB_NAME = Some ''j'', WORKSPACE = Some ''/w''\<rparr> ''/w/report'' ''x.png'' =
   ([], Some \<lparr>imageUrl = Some ''http://ci/job/j/ws/report/x.png'',
              archivedImageUrl = Some ''http://ci/job/j/7/artifact/report/x.png''\<rparr>)"
  using jenkins_relative_urls [where je = "\<lparr>JENKINS_URL = Some ''http://ci/'', BUILD_URL = Some ''http://ci/job/j/7/'', JOB_NAME = Some ''j'', WORKSPACE = Some ''/w''\<rparr>"
      and w = "''/w''" and j = "''j''" and b = "''http://ci/job/j/7/''" and p = "''/w/report''" and rel = "''/report''" and n = "''x.png''"]
  by simp

text \<open>The example of the specification: workspace \<open>/w\<close>, directory \<open>/w/report\<close>, job
  \<open>myjob\<close> on \<open>http://ci/\<close> give \<open>http://ci/job/myjob/ws/report/x.png\<close>.\<close>

lemma jenkins_spec_example:
  "formatJenkinsImageUrls \<lparr>JENKINS_URL = Some ''http://ci/'', BUILD_URL = None, JOB_NAME = Some ''myjob'', WORKSPACE = Some ''/w''\<rparr>
     ''/w/report'' ''x.png'' =
   ([], Some \<lparr>imageUrl = Some ''http://ci/job/myjob/ws/report/x.png'', archivedImageUrl = None\<rparr>)"
  by (simp add: formatJenkinsImageUrls_def)


end
