(* ===== verification/Stack.thy ===== *)
theory Stack
  imports Jenkins
begin

text \<open>
  The values that flow through the capture promises and the stack-trace annotation
  \<open>appendImageUrlToStackTrace(imageObject, err)\<close> (\<open>src/index.js\<close> lines 45--64).
  An exception object has a \<open>stack\<close> string and the marker \<open>_nemoScreenshotHandled\<close>
  the exception hook sets (lines 344--348). A capture resolves to \<open>true\<close> (no session),
  to the image object \<open>{imageName, imagePath[, imageUrl, archivedImageUrl]}\<close> of
  \<open>snap\<close>, or to the source object \<open>{sourceName, sourcePath}\<close> of \<open>source\<close>; an
  original click resolves to \<open>undefined\<close>. Without URLs the annotation embeds
  \<open>JSON.stringify(imageObject)\<close>, modelled with ECMAScript's \<open>QuoteJSONString\<close>.
\<close>

record exn =
  ex_stack :: "string option"
  ex_handled :: bool

record image_obj = image_urls +
  imageName :: string
  imagePath :: string

record source_obj =
  sourceName :: string
  sourcePath :: string

datatype jsval = JTrue | JUndefined | JImage image_obj | JSource source_obj

definition nl :: string where "nl = [CHR 0x0A]"
definition dq :: char where "dq = CHR 0x22"
definition bs :: char where "bs = CHR 0x5C"

definition hex_digit :: "nat \<Rightarrow> char" where
  "hex_digit d = char_of (if d < 10 then 48 + d else 87 + d)"

text \<open>One code unit of \<open>QuoteJSONString\<close>.\<close>

definition json_esc :: "char \<Rightarrow> string" where
  "json_esc c =
     (let n = (of_char c :: nat) in
        if n = 8 then [bs, CHR ''b'']
        else if n = 9 then [bs, CHR ''t'']
        else if n = 10 then [bs, CHR ''n'']
        else if n = 12 then [bs, CHR ''f'']
        else if n = 13 then [bs, CHR ''r'']
        else if n = 34 then [bs, dq]
        else if n = 92 then [bs, bs]
        else if n < 32 then [bs, CHR ''u'', CHR ''0'', CHR ''0'', hex_digit (n div 16), hex_digit (n mod 16)]
        else [c])"

definition json_quote :: "string \<Rightarrow> string" where
  "json_quote s = dq # concat (map json_esc s) @ [dq]"

definition json_prop :: "string \<Rightarrow> string \<Rightarrow> string" where
  "json_prop k v = json_quote k @ '':'' @ json_quote v"

definition json_object :: "string list \<Rightarrow> string" where
  "json_object props = CHR ''{'' # join_with CHR '','' props @ ''}''"

text \<open>\<open>JSON.stringify\<close> of the values a capture resolves to; a property whose value is
  \<open>undefined\<close> is left out, and \<open>JSON.stringify(undefined)\<close> concatenates as the text
  \<open>undefined\<close>.\<close>

fun json_stringify :: "jsval \<Rightarrow> string" where
  "json_stringify JTrue = ''true''"
| "json_stringify JUndefined = ''undefined''"
| "json_stringify (JImage ob) =
     json_object ([json_prop ''imageName'' (imageName ob), json_prop ''imagePath'' (imagePath ob)] @
       (case imageUrl ob of Some u \<Rightarrow> [json_prop ''imageUrl'' u] | None \<Rightarrow> []) @
       (case archivedImageUrl ob of Some u \<Rightarrow> [json_prop ''archivedImageUrl'' u] | None \<Rightarrow> []))"
| "json_stringify (JSource ob) =
     json_object [json_prop ''sourceName'' (sourceName ob), json_prop ''sourcePath'' (sourcePath ob)]"

text \<open>\<open>imageObject.imageUrl\<close> and \<open>imageObject.archivedImageUrl\<close>; on \<open>true\<close> and on a
  source object both are \<open>undefined\<close>.\<close>

fun obj_imageUrl :: "jsval \<Rightarrow> string option" where
  "obj_imageUrl (JImage ob) = imageUrl ob"
| "obj_imageUrl _ = None"

fun obj_archivedImageUrl :: "jsval \<Rightarrow> string option" where
  "obj_archivedImageUrl (JImage ob) = archivedImageUrl ob"
| "obj_archivedImageUrl _ = None"

definition stack_suffix :: "jsval \<Rightarrow> string" where
  "stack_suffix v =
     (let u = obj_imageUrl v; a = obj_archivedImageUrl v in
      if js_truthy u \<or> js_truthy a then
        nl @ (if js_truthy u then ''nemo-screenshot (workspace): '' @ js_str u @ nl else [])
           @ (if js_truthy a then ''nemo-screenshot (archived): '' @ js_str a @ nl else [])
      else nl @ ''nemo-screenshot::'' @ json_stringify v @ ''::nemo-screenshot'')"

definition appendImageUrlToStackTrace :: "jsval \<Rightarrow> exn option \<Rightarrow> exn option" where
  "appendImageUrlToStackTrace v err =
     (case err of
        None \<Rightarrow> None
      | Some e \<Rightarrow> Some (e\<lparr>ex_stack := Some (js_str (ex_stack e) @ stack_suffix v)\<rparr>))"

subsection \<open>Reading a JSON string back\<close>

text \<open>The string grammar of \<open>JSON.parse\<close>, for the body between the quotes: an escape
  or an ordinary character other than the quote, the backslash and the controls.\<close>

definition hex_val :: "char \<Rightarrow> nat option" where
  "hex_val c =
     (let n = (of_char c :: nat) in
        if 48 \<le> n \<and> n \<le> 57 then Some (n - 48)
        else if 97 \<le> n \<and> n \<le> 102 then Some (n - 87)
        else if 65 \<le> n \<and> n \<le> 70 then Some (n - 55)
        else None)"

definition simple_unesc :: "char \<Rightarrow> char option" where
  "simple_unesc d =
     (if d = dq then Some dq else if d = bs then Some bs else if d = CHR ''/'' then Some d
      else if d = CHR ''b'' then Some (char_of (8::nat)) else if d = CHR ''f'' then Some (char_of (12::nat))
      else if d = CHR ''n'' then Some (char_of (10::nat)) else if d = CHR ''r'' then Some (char_of (13::nat))
      else if d = CHR ''t'' then Some (char_of (9::nat)) else None)"

definition hex4 :: "char \<Rightarrow> char \<Rightarrow> char \<Rightarrow> char \<Rightarrow> nat option" where
  "hex4 a b c d =
     (case (hex_val a, hex_val b, hex_val c, hex_val d) of
        (Some w, Some x, Some y, Some z) \<Rightarrow> Some (((w * 16 + x) * 16 + y) * 16 + z)
      | _ \<Rightarrow> None)"

fun json_unesc :: "string \<Rightarrow> string option" where
  "json_unesc [] = Some []"
| "json_unesc [c] = (if c = bs \<or> c = dq \<or> (of_char c :: nat) < 32 then None else Some [c])"
| "json_unesc (c # d # cs) =
     (if c = bs then
        (if d = CHR ''u'' then
           (case cs of
              h1 # h2 # h3 # h4 # rest \<Rightarrow>
                (case hex4 h1 h2 h3 h4 of
                   Some n \<Rightarrow> if n < 256 then map_option (Cons (char_of n)) (json_unesc rest) else None
                 | None \<Rightarrow> None)
            | _ \<Rightarrow> None)
         else (case simple_unesc d of
                 None \<Rightarrow> None
               | Some e \<Rightarrow> map_option (Cons e) (json_unesc cs)))
      else if c = dq \<or> (of_char c :: nat) < 32 then None
      else map_option (Cons c) (json_unesc (d # cs)))"

text \<open>\<open>JSON.parse\<close> of a string literal: the quotes around an escaped body.\<close>

definition json_parse_string :: "string \<Rightarrow> string option" where
  "json_parse_string p =
     (case p of
        [] \<Rightarrow> None
      | c # rest \<Rightarrow> if c = dq \<and> rest \<noteq> [] \<and> last rest = dq then json_unesc (butlast rest) else None)"

subsection \<open>Lemmas\<close>

lemma hex_val_hex_digit: "d < 16 \<Longrightarrow> hex_val (hex_digit d) = Some d"
  by (auto simp: hex_val_def hex_digit_def of_char_of)

lemma json_unesc_plain:
  "c \<noteq> bs \<Longrightarrow> c \<noteq> dq \<Longrightarrow> \<not> (of_char c :: nat) < 32 \<Longrightarrow>
   json_unesc (c # rest) = map_option (Cons c) (json_unesc rest)"
  by (cases rest) simp_all

lemma json_unesc_esc: "json_unesc (json_esc c @ rest) = map_option (Cons c) (json_unesc rest)"
proof -
  let ?n = "of_char c :: nat"
  have cn: "c = char_of ?n" by simp
  consider "?n = 8" | "?n = 9" | "?n = 10" | "?n = 12" | "?n = 13" | "?n = 34" | "?n = 92"
    | "?n < 32" "?n \<notin> {8, 9, 10, 12, 13}" | "32 \<le> ?n" "?n \<noteq> 34" "?n \<noteq> 92"
    by fastforce
  then show ?thesis
  proof cases
    case 8
    have "?n div 16 < 16" "?n mod 16 < 16" using 8 by auto
    then have "hex4 CHR ''0'' CHR ''0'' (hex_digit (?n div 16)) (hex_digit (?n mod 16)) = Some ?n"
      by (simp add: hex4_def hex_val_hex_digit) (simp add: hex_val_def)
    with 8 show ?thesis by (simp add: json_esc_def bs_def Let_def)
  next
    case 9
    then have "c \<noteq> bs" "c \<noteq> dq" by (auto simp: bs_def dq_def)
    with 9 show ?thesis by (simp add: json_esc_def json_unesc_plain)
  next
    case 6
    then have "c = CHR 0x22" by (intro of_char_eqI) simp
    then show ?thesis by (simp add: json_esc_def bs_def dq_def simple_unesc_def)
  next
    case 7
    then have "c = CHR 0x5C" by (intro of_char_eqI) simp
    then show ?thesis by (simp add: json_esc_def bs_def dq_def simple_unesc_def)
  qed (simp_all add: json_esc_def bs_def dq_def simple_unesc_def, (subst cn, simp)+)
qed

lemma json_unesc_concat: "json_unesc (concat (map json_esc s)) = Some s"
  by (induction s) (simp_all add: json_unesc_esc)

subsection \<open>Round trip of the embedded JSON\<close>



subsection \<open>The annotation with Jenkins URLs\<close>

text \<open>C40 For a capture with both Jenkins URLs, the annotated exception keeps its marker and
  its stack text, followed by a newline, the workspace URL line and the archived URL line,
  each ending in a newline. A missing stack reads as the text \<open>undefined\<close>.\<close>

theorem stack_annotation_urls:
  "imageUrl ob = Some u \<Longrightarrow> u \<noteq> [] \<Longrightarrow> archivedImageUrl ob = Some a \<Longrightarrow> a \<noteq> [] \<Longrightarrow>
   appendImageUrlToStackTrace (JImage ob) (Some e) =
     Some (e\<lparr>ex_stack := Some (js_str (ex_stack e) @ nl @ ''nemo-screenshot (workspace): '' @ u @ nl @
                                ''nemo-screenshot (archived): '' @ a @ nl)\<rparr>)"
  by (simp add: appendImageUrlToStackTrace_def stack_suffix_def)

theorem stack_annotation_urls_witness:
  "appendImageUrlToStackTrace
     (JImage \<lparr>imageUrl = Some ''http://ci/job/j/ws/report/x.png'', archivedImageUrl = Some ''http://ci/job/j/7/artifact/report/x.png'',
              imageName = ''x.png'', imagePath = ''/w/report/x.png''\<rparr>)
     (Some \<lparr>ex_stack = None, ex_handled = True\<rparr>) =
   Some \<lparr>ex_stack = Some (''undefined'' @ nl @ ''nemo-screenshot (workspace): http://ci/job/j/ws/report/x.png'' @ nl @
                          ''nemo-screenshot (archived): http://ci/job/j/7/artifact/report/x.png'' @ nl),
         ex_handled = True\<rparr>"
  using stack_annotation_urls [of "\<lparr>imageUrl = Some ''http://ci/job/j/ws/report/x.png'', archivedImageUrl = Some ''http://ci/job/j/7/artifact/report/x.png'',
              imageName = ''x.png'', imagePath = ''/w/report/x.png''\<rparr>" "''http://ci/job/j/ws/report/x.png''"
      "''http://ci/job/j/7/artifact/report/x.png''" "\<lparr>ex_stack = None, ex_handled = True\<rparr>"]
  by simp

end
