(* ===== verification/Capture.thy ===== *)
theory Capture
  imports Promise Slug FS Stack
begin

text \<open>
  The Capture Service: the object \<open>nemo.screenshot\<close> built by \<open>setup\<close>
  (\<open>src/index.js\<close> lines 132--326) with \<open>snap\<close>, \<open>source\<close>, \<open>done\<close> and
  \<open>setCurrentTestTitle\<close>. The process and host (\<open>process.cwd()\<close>, \<open>process.env\<close>,
  \<open>process.pid\<close>, whether \<open>global.Promise\<close> exists) are a \<open>config\<close>; the driver is
  given by what each of its calls yields (\<open>driver\<close>). The world holds the file system,
  the driver commands issued in order, the console output, the promise rejections nobody
  handles, the clock, and the plugin's own state: the configured directory, the
  auto-capture options and the current test title. Operations take and return the world
  as a record scheme, so that the hooks can extend it.

  Each operation is modelled big-step: the callbacks of one capture run in the order the
  driver's command queue completes them, and the returned promise is the state the
  bridge's deferred (\<open>p(nemo.wd)\<close>) reaches. A \<open>throw\<close> inside a \<open>.then\<close> callback
  (from \<open>mkdirp.sync\<close>) rejects only the promise \<open>.then\<close> returned, which nobody
  handles: the deferred stays \<open>Pending\<close> and the error is recorded as unhandled.
\<close>

record config =
  cwd :: string
  env :: jenv
  pid :: nat
  has_native_promise :: bool

record driver =
  session_handle :: bool
  session_result :: "js_err + bool"
  screenshot_result :: "js_err + string"
  page_source_result :: "js_err + string"
  script_result :: "js_err + u16string"
  click_result :: "js_err + unit"

datatype cmd = TakeScreenshot | GetPageSource | ExecuteScript | ClickElement nat

datatype log_entry = LogLine string | LogError js_err

record world =
  w_fs :: fsys
  w_cmds :: "cmd list"
  w_log :: "log_entry list"
  w_unhandled :: "js_err list"
  w_now :: nat
  screenShotPath :: string
  autoCaptureOptions :: "string list"
  currentTestTitle :: "string option"

definition issue :: "cmd \<Rightarrow> 'a world_scheme \<Rightarrow> 'a world_scheme" where
  "issue c w = w\<lparr>w_cmds := w_cmds w @ [c]\<rparr>"

definition unhandled :: "js_err \<Rightarrow> 'a world_scheme \<Rightarrow> 'a world_scheme" where
  "unhandled e w = w\<lparr>w_unhandled := w_unhandled w @ [e]\<rparr>"

text \<open>How the operating system addresses a path given to \<open>fs\<close> or \<open>mkdirp\<close>.\<close>

definition fs_key :: "config \<Rightarrow> string \<Rightarrow> string list" where
  "fs_key cfg p = abs_segs (path_resolve (cwd cfg) p)"

definition snap :: "config \<Rightarrow> driver \<Rightarrow> string \<Rightarrow> 'a world_scheme \<Rightarrow>
    (jsval, js_err) pstate \<times> 'a world_scheme" where
  "snap cfg drv filename w =
     (let deferred = p_defer (has_native_promise cfg) in
      if \<not> session_handle drv then (d_promise (d_fulfill JTrue deferred), w)
      else
        (let w1 = issue TakeScreenshot w in
         case screenshot_result drv of
           Inl err \<Rightarrow> (d_promise (d_reject err deferred), w1)
         | Inr screenImg \<Rightarrow>
             (let imgName = filename @ ''.png'';
                  imageDir = path_resolve (cwd cfg) (screenShotPath w);
                  imageFullPath = path_join imageDir imgName
              in case mkdirp_sync (w_fs w1) (fs_key cfg (path_dirname imageFullPath)) of
                   Inl err \<Rightarrow> (d_promise deferred, unhandled err w1)
                 | Inr fs1 \<Rightarrow>
                     (let (logs, urls) =
                            (if js_truthy (JENKINS_URL (env cfg))
                             then formatJenkinsImageUrls (env cfg) (screenShotPath w) imgName
                             else ([], None));
                          imageObj = \<lparr>imageUrl = (case urls of None \<Rightarrow> None | Some u \<Rightarrow> imageUrl u),
                                      archivedImageUrl = (case urls of None \<Rightarrow> None | Some u \<Rightarrow> archivedImageUrl u),
                                      imageName = imgName, imagePath = imageFullPath\<rparr>;
                          w2 = w1\<lparr>w_fs := fs1, w_log := w_log w1 @ map LogLine logs\<rparr>
                      in case write_file fs1 (fs_key cfg imageFullPath) (Base64Decoded screenImg) of
                           Inl err \<Rightarrow> (d_promise (d_reject err deferred), w2)
                         | Inr fs2 \<Rightarrow> (d_promise (d_fulfill (JImage imageObj) deferred), w2\<lparr>w_fs := fs2\<rparr>)))))"

text \<open>
  \<open>source\<close> issues the invisible-node script and then the page-source request; the
  script's callback (its own \<open>.txt\<close> file, written without \<open>mkdirp\<close>, a write error
  logged with \<open>console.error\<close>, a script failure left unhandled) runs before the page
  source's, as the queue completes them in that order.
\<close>

definition source :: "config \<Rightarrow> driver \<Rightarrow> string \<Rightarrow> 'a world_scheme \<Rightarrow>
    (jsval, js_err) pstate \<times> 'a world_scheme" where
  "source cfg drv filename w =
     (let deferred = p_defer (has_native_promise cfg) in
      if \<not> session_handle drv then (d_promise (d_fulfill JTrue deferred), w)
      else
        (let w1 = issue GetPageSource (issue ExecuteScript w);
             w2 = (case script_result drv of
                     Inl err \<Rightarrow> unhandled err w1
                   | Inr bin_str_invisiNodes \<Rightarrow>
                       (let invisinodeName = filename @ ''.txt'';
                            folderPath = path_resolve (cwd cfg) (screenShotPath w);
                            filePath = path_join folderPath invisinodeName
                        in case write_file (w_fs w1) (fs_key cfg filePath) (Utf8Units bin_str_invisiNodes) of
                             Inl err \<Rightarrow> w1\<lparr>w_log := w_log w1 @ [LogError err]\<rparr>
                           | Inr fs' \<Rightarrow> w1\<lparr>w_fs := fs'\<rparr>))
         in case page_source_result drv of
              Inl err \<Rightarrow> (d_promise (d_reject err deferred), w2)
            | Inr src \<Rightarrow>
                (let srcName = filename @ ''.html'';
                     sourceDir = path_resolve (cwd cfg) (screenShotPath w);
                     sourceFullPath = path_join sourceDir srcName
                 in case mkdirp_sync (w_fs w2) (fs_key cfg (path_dirname sourceFullPath)) of
                      Inl err \<Rightarrow> (d_promise deferred, unhandled err w2)
                    | Inr fs1 \<Rightarrow>
                        (let sourceObj = \<lparr>sourceName = srcName, sourcePath = sourceFullPath\<rparr> in
                         case write_file fs1 (fs_key cfg sourceFullPath) (Utf8Text src) of
                           Inl err \<Rightarrow> (d_promise (d_reject err deferred), w2\<lparr>w_fs := fs1\<rparr>)
                         | Inr fs2 \<Rightarrow> (d_promise (d_fulfill (JSource sourceObj) deferred), w2\<lparr>w_fs := fs2\<rparr>)))))"

text \<open>
  \<open>done(filename, done, err)\<close>: the argument of every call of the completion callback,
  in order. On fulfilment the error's stack is annotated in place and passed on; on
  rejection the snap error is logged (\<open>console.log\<close> joins its arguments with a space,
  \<open>Error.prototype.toString\<close> gives \<open>Error: message\<close>) and passed instead.
\<close>

datatype cb_arg = CbErr "exn option" | CbSnapError js_err

definition js_err_toString :: "js_err \<Rightarrow> string" where
  "js_err_toString e = (case e of JsError m \<Rightarrow> ''Error: '' @ m)"

definition screenshot_done :: "config \<Rightarrow> driver \<Rightarrow> string \<Rightarrow> exn option \<Rightarrow> 'a world_scheme \<Rightarrow>
    cb_arg list \<times> 'a world_scheme" where
  "screenshot_done cfg drv filename err w =
     (case snap cfg drv filename w of
        (Pending, w1) \<Rightarrow> ([], w1)
      | (Fulfilled imageObject, w1) \<Rightarrow> ([CbErr (appendImageUrlToStackTrace imageObject err)], w1)
      | (Rejected scerror, w1) \<Rightarrow>
          ([CbSnapError scerror],
           w1\<lparr>w_log := w_log w1 @ [LogLine (''nemo-screenshot encountered some error. '' @ js_err_toString scerror)]\<rparr>))"

definition setCurrentTestTitle :: "string option \<Rightarrow> 'a world_scheme \<Rightarrow> 'a world_scheme" where
  "setCurrentTestTitle title w = w\<lparr>currentTestTitle := title\<rparr>"

subsection \<open>Paths of a capture\<close>

lemma path_resolve_fs_key: "path_resolve (cwd cfg) p = seg_path (fs_key cfg p)"
  by (simp add: fs_key_def path_resolve_seg_path abs_segs_seg_path abs_segs_plain)

lemma fs_key_seg_path: "\<forall>s \<in> set ss. plain_seg s \<Longrightarrow> fs_key cfg (seg_path ss) = ss"
proof -
  assume ss: "\<forall>s \<in> set ss. plain_seg s"
  have "path_resolve (cwd cfg) (seg_path ss) = seg_path ss"
    using ss by (simp add: path_resolve_seg_path abs_segs_seg_path) (simp add: seg_path_def)
  with ss show ?thesis by (simp add: fs_key_def abs_segs_seg_path)
qed

lemma fs_key_plain: "\<forall>s \<in> set (fs_key cfg p). plain_seg s"
  by (simp add: fs_key_def abs_segs_plain)

lemma capture_paths:
  assumes n: "plain_seg n"
  shows "path_join (path_resolve (cwd cfg) p) n = seg_path (fs_key cfg p @ [n])"
    and "fs_key cfg (path_dirname (seg_path (fs_key cfg p @ [n]))) = fs_key cfg p"
    and "fs_key cfg (seg_path (fs_key cfg p @ [n])) = fs_key cfg p @ [n]"
  using n fs_key_plain [of cfg p]
  by (simp_all add: path_resolve_fs_key path_join_plain path_dirname_plain fs_key_seg_path)

lemma plain_seg_ext: "CHR ''/'' \<notin> set f \<Longrightarrow> CHR ''/'' \<notin> set e \<Longrightarrow> length e \<ge> 3 \<Longrightarrow> plain_seg (f @ e)"
  by (auto simp: plain_seg_def dest: arg_cong [where f = length])

subsection \<open>File-system effects of the captures\<close>

lemma snap_fs_step:
  "fs_inv (w_fs w) \<Longrightarrow> fs_step (w_fs w) (w_fs (snd (snap cfg drv f w)))"
  by (auto simp: snap_def Let_def issue_def unhandled_def fs_step_refl
      intro: fs_step_mkdirp fs_step_mkdirp_write split: sum.splits prod.splits)

lemma source_fs_step:
  "fs_inv (w_fs w) \<Longrightarrow> fs_step (w_fs w) (w_fs (snd (source cfg drv f w)))"
  by (auto simp: source_def Let_def issue_def unhandled_def fs_step_refl
      intro: fs_step_mkdirp fs_step_mkdirp_write fs_step_write fs_step_write_mkdirp fs_step_write_mkdirp_write
      split: sum.splits prod.splits)

lemma done_fs:
  "w_fs (snd (screenshot_done cfg drv f err w)) = w_fs (snd (snap cfg drv f w))"
  by (simp add: screenshot_done_def split: prod.splits pstate.splits)

subsection \<open>A concrete configuration\<close>

text \<open>A user in \<open>/home/u\<close> with screenshots configured as \<open>report\<close>, which does not exist yet, and a driver on which every call succeeds.\<close>

definition ex_cfg :: config where
  "ex_cfg = \<lparr>cwd = ''/home/u'', env = \<lparr>JENKINS_URL = None, BUILD_URL = None, JOB_NAME = None, WORKSPACE = None\<rparr>,
             pid = 42, has_native_promise = True\<rparr>"
definition ex_drv :: driver where
  "ex_drv = \<lparr>session_handle = True, session_result = Inr True, screenshot_result = Inr ''iVBO'',
             page_source_result = Inr ''<html/>'', script_result = Inr (u16 ''[]''), click_result = Inr ()\<rparr>"
definition ex_world :: world where
  "ex_world = \<lparr>w_fs = ex_fs, w_cmds = [], w_log = [], w_unhandled = [], w_now = 1000,
               screenShotPath = ''report'', autoCaptureOptions = [], currentTestTitle = None\<rparr>"

lemma ex_fs_key: "fs_key ex_cfg ''report'' = [''home'', ''u'', ''report'']"
  by (simp add: fs_key_def ex_cfg_def abs_segs_def path_resolve_def norm_segs_def norm_step_def)

text \<open>The same user once \<open>report\<close> exists.\<close>

definition ex_ready_world :: world where
  "ex_ready_world = ex_world\<lparr>w_fs := ex_fs\<lparr>dirs := insert [''home'', ''u'', ''report''] (dirs ex_fs)\<rparr>\<rparr>"

definition ex_blocked_world :: world where
  "ex_blocked_world = ex_world\<lparr>w_fs := ex_fs\<lparr>files := [[''home'', ''u'', ''report''] \<mapsto> Utf8Text ''notes'']\<rparr>\<rparr>"

lemma ex_blocked_mkdirp:
  "mkdirp_sync (w_fs ex_blocked_world) (fs_key ex_cfg (screenShotPath ex_blocked_world)) = Inl EEXIST"
  by (simp add: ex_blocked_world_def ex_world_def ex_fs_key ex_fs_def mkdirp_sync.simps mkdir_sync_def
      ancestor_file_def mkdirp_handle_def)

lemmas capture_eval = snap_def source_def Let_def issue_def unhandled_def fs_key_def path_resolve_def
  path_join_def path_normalize_def path_dirname_def norm_segs_def norm_step_def abs_segs_def
  mkdirp_sync.simps mkdir_sync_def mkdirp_handle_def ancestor_file_def write_file_def
  ex_cfg_def ex_drv_def ex_world_def ex_fs_def

lemma ex_snap_shot:
  "fst (snap ex_cfg ex_drv ''shot'' ex_world) =
   Fulfilled (JImage \<lparr>imageUrl = None, archivedImageUrl = None, imageName = ''shot.png'',
                      imagePath = ''/home/u/report/shot.png''\<rparr>)"
  by (simp add: capture_eval)

lemma ex_snap_blocked: "fst (snap ex_cfg ex_drv ''shot'' ex_blocked_world) = Pending"
  by (simp add: capture_eval ex_blocked_world_def)

subsection \<open>Behaviour of snap\<close>

text \<open>The write at the end of a capture: once \<open>mkdirp\<close> has made the configured
  directory, \<open>f.png\<close> is written in it and the invariant is kept.\<close>

lemma png_write:
  assumes inv: "fs_inv (w_fs w)" and f: "CHR ''/'' \<notin> set f"
    and mk: "mkdirp_sync (w_fs w) (fs_key cfg (screenShotPath w)) = Inr fs1"
    and nd: "fs_key cfg (screenShotPath w) @ [f @ ''.png''] \<notin> dirs (w_fs w)"
    and nc: "fs_key cfg (screenShotPath w) \<notin> no_create (w_fs w)"
  shows "write_file fs1 (fs_key cfg (screenShotPath w) @ [f @ ''.png'']) (Base64Decoded img) =
           Inr (fs1\<lparr>files := (files fs1)(fs_key cfg (screenShotPath w) @ [f @ ''.png''] \<mapsto> Base64Decoded img)\<rparr>) \<and>
         fs_inv (fs1\<lparr>files := (files fs1)(fs_key cfg (screenShotPath w) @ [f @ ''.png''] \<mapsto> Base64Decoded img)\<rparr>)"
proof -
  let ?D = "fs_key cfg (screenShotPath w)" and ?n = "f @ ''.png''"
  have inv1: "fs_inv fs1" using inv mk by (rule fs_inv_mkdirp_sync)
  have g: "fs_grows (w_fs w) fs1" using mk by (rule mkdirp_sync_grows)
  have dD: "?D \<in> dirs fs1" using inv mk by (rule mkdirp_sync_dir)
  have nd1: "?D @ [?n] \<notin> dirs fs1"
  proof
    assume "?D @ [?n] \<in> dirs fs1"
    from mkdirp_sync_new_dirs [OF mk this] nd obtain k where "?D @ [?n] = take k ?D" by blast
    then have "length (?D @ [?n]) = length (take k ?D)" by (rule arg_cong)
    then show False by simp
  qed
  have wr: "write_file fs1 (?D @ [?n]) (Base64Decoded img) = Inr (fs1\<lparr>files := (files fs1)(?D @ [?n] \<mapsto> Base64Decoded img)\<rparr>)"
    using inv1 dD nd1 nc g by (intro write_file_ok) (simp_all add: fs_grows_def)
  with inv1 show ?thesis by (simp add: fs_inv_write_file)
qed

lemma ext_paths:
  "CHR ''/'' \<notin> set f \<Longrightarrow> CHR ''/'' \<notin> set e \<Longrightarrow> 3 \<le> length e \<Longrightarrow>
   path_join (path_resolve (cwd cfg) p) (f @ e) = seg_path (fs_key cfg p @ [f @ e]) \<and>
   fs_key cfg (path_dirname (seg_path (fs_key cfg p @ [f @ e]))) = fs_key cfg p \<and>
   fs_key cfg (seg_path (fs_key cfg p @ [f @ e])) = fs_key cfg p @ [f @ e]"
  using capture_paths [OF plain_seg_ext, of f e cfg p] by simp

lemma png_paths:
  "CHR ''/'' \<notin> set f \<Longrightarrow>
   path_join (path_resolve (cwd cfg) p) (f @ ''.png'') = seg_path (fs_key cfg p @ [f @ ''.png'']) \<and>
   fs_key cfg (path_dirname (seg_path (fs_key cfg p @ [f @ ''.png'']))) = fs_key cfg p \<and>
   fs_key cfg (seg_path (fs_key cfg p @ [f @ ''.png''])) = fs_key cfg p @ [f @ ''.png'']"
  by (rule ext_paths) simp_all

lemma snap_png_fs:
  assumes inv: "fs_inv (w_fs w)" and sess: "session_handle drv"
    and shot: "screenshot_result drv = Inr img" and f: "CHR ''/'' \<notin> set f"
    and mk: "mkdirp_sync (w_fs w) (fs_key cfg (screenShotPath w)) = Inr fs1"
    and nd: "fs_key cfg (screenShotPath w) @ [f @ ''.png''] \<notin> dirs (w_fs w)"
    and nc: "fs_key cfg (screenShotPath w) \<notin> no_create (w_fs w)"
  shows "w_fs (snd (snap cfg drv f w)) =
         fs1\<lparr>files := (files fs1)(fs_key cfg (screenShotPath w) @ [f @ ''.png''] \<mapsto> Base64Decoded img)\<rparr>"
  using png_write [OF inv f mk nd nc, of img] png_paths [OF f, of cfg "screenShotPath w"] sess shot mk
  by (simp add: snap_def Let_def issue_def split: prod.splits)

lemma source_success:
  assumes inv: "fs_inv (w_fs w)" and sess: "session_handle drv" and f: "CHR ''/'' \<notin> set f"
    and scr: "script_result drv = Inr txt" and pg: "page_source_result drv = Inr src"
    and dir: "fs_key cfg (screenShotPath w) \<in> dirs (w_fs w)"
    and nt: "fs_key cfg (screenShotPath w) @ [f @ ''.txt''] \<notin> dirs (w_fs w)"
    and nh: "fs_key cfg (screenShotPath w) @ [f @ ''.html''] \<notin> dirs (w_fs w)"
    and nc: "fs_key cfg (screenShotPath w) \<notin> no_create (w_fs w)"
  shows "source cfg drv f w =
           (Fulfilled (JSource \<lparr>sourceName = f @ ''.html'', sourcePath = seg_path (fs_key cfg (screenShotPath w) @ [f @ ''.html''])\<rparr>),
            (issue GetPageSource (issue ExecuteScript w))\<lparr>w_fs := (w_fs w)\<lparr>files := (files (w_fs w))
               (fs_key cfg (screenShotPath w) @ [f @ ''.txt''] \<mapsto> Utf8Units txt,
                fs_key cfg (screenShotPath w) @ [f @ ''.html''] \<mapsto> Utf8Text src)\<rparr>\<rparr>)"
proof -
  let ?D = "fs_key cfg (screenShotPath w)" and ?fs = "w_fs w"
  let ?fs1 = "?fs\<lparr>files := (files ?fs)(?D @ [f @ ''.txt''] \<mapsto> Utf8Units txt)\<rparr>"
  let ?fs2 = "?fs1\<lparr>files := (files ?fs1)(?D @ [f @ ''.html''] \<mapsto> Utf8Text src)\<rparr>"
  have w1: "write_file ?fs (?D @ [f @ ''.txt'']) (Utf8Units txt) = Inr ?fs1"
    using inv dir nt nc by (intro write_file_ok) simp_all
  have inv1: "fs_inv ?fs1" using inv w1 by (rule fs_inv_write_file)
  have mk: "mkdirp_sync ?fs1 ?D = Inr ?fs1" using inv1 dir by (intro mkdirp_sync_existing) simp_all
  have w2: "write_file ?fs1 (?D @ [f @ ''.html'']) (Utf8Text src) = Inr ?fs2"
    using inv1 dir nh nc by (intro write_file_ok) simp_all
  note pt = ext_paths [OF f, of "''.txt''" cfg "screenShotPath w"]
  note ph = ext_paths [OF f, of "''.html''" cfg "screenShotPath w"]
  show ?thesis
    using sess scr pg w1 mk w2 pt ph
    by (simp add: source_def Let_def issue_def)
qed

text \<open>C1 snap with a live session writes the decoded screenshot to \<open>f.png\<close> directly inside the configured directory and resolves with its name and path.\<close>

theorem snap_writes_png:
  assumes inv: "fs_inv (w_fs w)" and sess: "session_handle drv"
    and shot: "screenshot_result drv = Inr img" and f: "CHR ''/'' \<notin> set f"
    and mk: "mkdirp_sync (w_fs w) (fs_key cfg (screenShotPath w)) = Inr fs1"
    and nd: "fs_key cfg (screenShotPath w) @ [f @ ''.png''] \<notin> dirs (w_fs w)"
    and nc: "fs_key cfg (screenShotPath w) \<notin> no_create (w_fs w)"
  shows "\<exists>ob w'. snap cfg drv f w = (Fulfilled (JImage ob), w') \<and>
           imageName ob = f @ ''.png'' \<and>
           imagePath ob = seg_path (fs_key cfg (screenShotPath w) @ [f @ ''.png'']) \<and>
           files (w_fs w') (fs_key cfg (screenShotPath w) @ [f @ ''.png'']) = Some (Base64Decoded img) \<and>
           fs_inv (w_fs w')"
  using png_write [OF inv f mk nd nc, of img] png_paths [OF f, of cfg "screenShotPath w"] sess shot mk
  by (simp add: snap_def Let_def issue_def split: prod.splits)

theorem snap_writes_png_witness:
  "\<exists>ob w'. snap ex_cfg ex_drv ''shot'' ex_world = (Fulfilled (JImage ob), w') \<and>
     imageName ob = ''shot.png'' \<and> imagePath ob = ''/home/u/report/shot.png'' \<and>
     files (w_fs w') [''home'', ''u'', ''report'', ''shot.png''] = Some (Base64Decoded ''iVBO'') \<and>
     fs_inv (w_fs w')"
proof -
  have mk: "mkdirp_sync (w_fs ex_world) (fs_key ex_cfg (screenShotPath ex_world)) =
            Inr (ex_fs\<lparr>dirs := insert [''home'', ''u'', ''report''] (dirs ex_fs)\<rparr>)"
    by (simp add: ex_world_def ex_fs_key ex_fs_mkdirp)
  have h1: "fs_inv (w_fs ex_world)" by (simp add: ex_world_def ex_fs_inv)
  have h2: "session_handle ex_drv" "screenshot_result ex_drv = Inr ''iVBO''" by (simp_all add: ex_drv_def)
  have h3: "CHR ''/'' \<notin> set ''shot''" by simp
  have h4: "fs_key ex_cfg (screenShotPath ex_world) @ [''shot'' @ ''.png''] \<notin> dirs (w_fs ex_world)"
    "fs_key ex_cfg (screenShotPath ex_world) \<notin> no_create (w_fs ex_world)"
    by (simp_all add: ex_world_def ex_fs_key ex_fs_def)
  note snap_writes_png [OF h1 h2 h3 mk h4]
  then show ?thesis by (simp add: ex_world_def ex_fs_key seg_path_def)
qed



text \<open>C22 When the screenshot request fails, snap rejects with exactly that error, after issuing only the screenshot command.\<close>

theorem snap_screenshot_error:
  "session_handle drv \<Longrightarrow> screenshot_result drv = Inl e \<Longrightarrow>
   snap cfg drv f w = (Rejected e, issue TakeScreenshot w)"
  by (simp add: snap_def)

theorem snap_screenshot_error_witness:
  "snap ex_cfg (ex_drv\<lparr>screenshot_result := Inl (JsError ''no such session'')\<rparr>) ''shot'' ex_world =
   (Rejected (JsError ''no such session''), issue TakeScreenshot ex_world)"
  by (rule snap_screenshot_error) (simp_all add: ex_drv_def)

text \<open>C5 When the directory cannot be created, mkdirp throws inside the screenshot callback: the promise snap returns never settles and the error is left unhandled.\<close>

theorem snap_mkdirp_failure_pending:
  assumes "session_handle drv" "screenshot_result drv = Inr img" "CHR ''/'' \<notin> set f"
    and "mkdirp_sync (w_fs w) (fs_key cfg (screenShotPath w)) = Inl e"
  shows "snap cfg drv f w = (Pending, unhandled e (issue TakeScreenshot w))"
proof -
  have n: "plain_seg (f @ ''.png'')" using assms(3) by (intro plain_seg_ext) simp_all
  note paths = capture_paths [OF n, where cfg = cfg and p = "screenShotPath w"]
  show ?thesis using assms paths by (simp add: snap_def Let_def issue_def)
qed

theorem snap_mkdirp_failure_pending_witness:
  "snap ex_cfg ex_drv ''shot'' ex_blocked_world =
   (Pending, unhandled EEXIST (issue TakeScreenshot ex_blocked_world))"
  by (rule snap_mkdirp_failure_pending [OF _ _ _ ex_blocked_mkdirp]) (simp_all add: ex_drv_def)

text \<open>C7 Whenever snap settles, done calls its completion callback exactly once.\<close>

theorem done_settled_calls_once:
  "fst (snap cfg drv f w) \<noteq> Pending \<Longrightarrow> length (fst (screenshot_done cfg drv f err w)) = 1"
  by (cases "snap cfg drv f w" rule: prod.exhaust, rename_tac r w', case_tac r)
     (simp_all add: screenshot_done_def)

text \<open>C6 When snap never settles, done never calls its completion callback.\<close>

theorem done_pending_no_callback:
  "fst (snap cfg drv f w) = Pending \<Longrightarrow> fst (screenshot_done cfg drv f err w) = []"
  by (cases "snap cfg drv f w") (simp add: screenshot_done_def)

theorem done_pending_no_callback_witness:
  "fst (screenshot_done ex_cfg ex_drv ''shot'' None ex_blocked_world) = []"
  by (rule done_pending_no_callback) (simp add: ex_snap_blocked)

theorem done_settled_calls_once_witness:
  "fst (snap ex_cfg ex_drv ''shot'' ex_world) \<noteq> Pending \<and>
   length (fst (screenshot_done ex_cfg ex_drv ''shot'' None ex_world)) = 1"
  using done_settled_calls_once [of ex_cfg ex_drv "''shot''" ex_world None] by (simp add: ex_snap_shot)



subsection \<open>Behaviour of source\<close>



text \<open>C24 When the configured directory exists, \<open>source\<close> writes the script's dump to
  \<open>f.txt\<close> and the page source to \<open>f.html\<close> in it, keeps the invariant and resolves with
  the source object \<open>{sourceName: f.html, sourcePath}\<close>.\<close>

theorem source_writes_both:
  assumes inv: "fs_inv (w_fs w)" and sess: "session_handle drv" and f: "CHR ''/'' \<notin> set f"
    and scr: "script_result drv = Inr txt" and pg: "page_source_result drv = Inr src"
    and dir: "fs_key cfg (screenShotPath w) \<in> dirs (w_fs w)"
    and nt: "fs_key cfg (screenShotPath w) @ [f @ ''.txt''] \<notin> dirs (w_fs w)"
    and nh: "fs_key cfg (screenShotPath w) @ [f @ ''.html''] \<notin> dirs (w_fs w)"
    and nc: "fs_key cfg (screenShotPath w) \<notin> no_create (w_fs w)"
  shows "\<exists>w'. source cfg drv f w =
           (Fulfilled (JSource \<lparr>sourceName = f @ ''.html'', sourcePath = seg_path (fs_key cfg (screenShotPath w) @ [f @ ''.html''])\<rparr>), w') \<and>
         files (w_fs w') (fs_key cfg (screenShotPath w) @ [f @ ''.txt'']) = Some (Utf8Units txt) \<and>
         files (w_fs w') (fs_key cfg (screenShotPath w) @ [f @ ''.html'']) = Some (Utf8Text src) \<and>
         fs_inv (w_fs w')"
proof -
  let ?D = "fs_key cfg (screenShotPath w)"
  have "?D @ [f @ ''.txt''] \<noteq> ?D @ [f @ ''.html'']" by simp
  moreover have "fs_inv ((w_fs w)\<lparr>files := (files (w_fs w))(?D @ [f @ ''.txt''] \<mapsto> Utf8Units txt,
                   ?D @ [f @ ''.html''] \<mapsto> Utf8Text src)\<rparr>)"
    using inv dir nt nh by (auto simp: fs_inv_def)
  ultimately show ?thesis
    by (simp add: source_success [OF assms] issue_def)
qed

theorem source_writes_both_witness:
  "\<exists>w'. source ex_cfg ex_drv ''page'' ex_ready_world =
     (Fulfilled (JSource \<lparr>sourceName = ''page.html'', sourcePath = ''/home/u/report/page.html''\<rparr>), w') \<and>
     files (w_fs w') [''home'', ''u'', ''report'', ''page.txt''] = Some (Utf8Units (u16 ''[]'')) \<and>
     files (w_fs w') [''home'', ''u'', ''report'', ''page.html''] = Some (Utf8Text ''<html/>'') \<and>
     fs_inv (w_fs w')"
proof -
  have k: "fs_key ex_cfg (screenShotPath ex_ready_world) = [''home'', ''u'', ''report'']"
    by (simp add: ex_ready_world_def ex_world_def ex_fs_key)
  have h: "fs_inv (w_fs ex_ready_world)" "session_handle ex_drv" "CHR ''/'' \<notin> set ''page''"
    "script_result ex_drv = Inr (u16 ''[]'')" "page_source_result ex_drv = Inr ''<html/>''"
    by (simp_all add: ex_ready_world_def ex_world_def ex_fs_def fs_inv_def ex_drv_def)
  have d: "fs_key ex_cfg (screenShotPath ex_ready_world) \<in> dirs (w_fs ex_ready_world)"
    "fs_key ex_cfg (screenShotPath ex_ready_world) @ [''page'' @ ''.txt''] \<notin> dirs (w_fs ex_ready_world)"
    "fs_key ex_cfg (screenShotPath ex_ready_world) @ [''page'' @ ''.html''] \<notin> dirs (w_fs ex_ready_world)"
    "fs_key ex_cfg (screenShotPath ex_ready_world) \<notin> no_create (w_fs ex_ready_world)"
    by (simp_all add: k) (simp_all add: ex_ready_world_def ex_world_def ex_fs_def)
  from source_writes_both [OF h d] show ?thesis by (simp add: k seg_path_def)
qed

end
