(* ===== verification/Hooks.thy ===== *)
theory Hooks
  imports Capture
begin

text \<open>
  \<open>setup\<close> and the Auto-Capture Hooks (\<open>src/index.js\<close> lines 109--131 and 328--376).
  The system state extends the capture world with what \<open>setup\<close> installs globally: the
  wrappers put around \<open>WebElement.prototype.click\<close> (each remembers the options of the
  \<open>setup\<close> call that installed it; the head is the outermost, i.e. latest), the
  listeners of the control flow's \<open>UNCAUGHT_EXCEPTION\<close> event, a heap of exception
  objects (the listener marks the object it is given, so identity matters), what other
  listeners have observed, and the pending continuations of \<open>driver.getSession()\<close>.

  Event emission is synchronous: \<open>flow.emit\<close> calls each listener in turn, and the
  listener calls \<open>flow.emit\<close> again for an exception already marked, before going on.
  The model bounds the depth of nested calls by a fuel argument standing for the call
  stack; \<open>None\<close> is the stack overflow (\<open>RangeError\<close>) that unbounded recursion ends in.
\<close>

datatype listener = NemoHook "string list" | Observer nat

record sys = world +
  click_wrappers :: "string list list"
  listeners :: "listener list"
  exns :: "nat \<Rightarrow> exn"
  observed :: "(nat \<times> exn) list"
  tasks :: "(string list \<times> nat) list"

subsection \<open>setup\<close>

text \<open>\<open>setup\<close> with three arguments (no options), four, or another count, for which every
  parameter is \<open>undefined\<close> and \<open>nemo.driver\<close> throws a \<open>TypeError\<close>. It replaces
  \<open>nemo.screenshot\<close> (so the test title is unset again), wraps \<open>click\<close> once more when
  \<open>click\<close> is an option, adds one more listener when \<open>exception\<close> is, and calls
  back with \<open>null\<close>.\<close>

datatype setup_args = Setup3 string | Setup4 string "string list" | SetupArity nat

definition install :: "string \<Rightarrow> string list \<Rightarrow> 'a sys_scheme \<Rightarrow> 'a sys_scheme" where
  "install p opts s =
     s\<lparr>screenShotPath := p, autoCaptureOptions := opts, currentTestTitle := None,
       click_wrappers := (if ''click'' \<in> set opts then opts # click_wrappers s else click_wrappers s),
       listeners := (if ''exception'' \<in> set opts then listeners s @ [NemoHook opts] else listeners s)\<rparr>"

definition nemo_setup :: "setup_args \<Rightarrow> 'a sys_scheme \<Rightarrow> js_err + 'a sys_scheme" where
  "nemo_setup args s =
     (case args of
        Setup3 p \<Rightarrow> Inr (install p [] s)
      | Setup4 p opts \<Rightarrow> Inr (install p opts s)
      | SetupArity n \<Rightarrow> Inl (JsError ''TypeError''))"

subsection \<open>The click wrapper\<close>

definition click_filename :: "config \<Rightarrow> 'a world_scheme \<Rightarrow> string" where
  "click_filename cfg s = ''ScreenShot_onClick-'' @ dec_string (pid cfg) @ ''-'' @ dec_string (w_now s)"

text \<open>
  \<open>element.click()\<close> through the installed wrappers. A wrapper captures the page source
  (if its options ask for it) and a screenshot, then evaluates \<open>oclick.apply(this,
  arguments)\<close>, the next wrapper or the original click, eagerly as the argument of
  \<open>.then\<close>. That argument is a promise, not a function, so \<open>.then\<close> ignores it: the
  wrapper returns the screenshot's promise, and a rejection of the click is unhandled.
\<close>

fun click_el :: "config \<Rightarrow> driver \<Rightarrow> string list list \<Rightarrow> nat \<Rightarrow> 'a world_scheme \<Rightarrow>
    (jsval, js_err) pstate \<times> 'a world_scheme" where
  "click_el cfg drv [] el s =
     ((case click_result drv of Inl e \<Rightarrow> Rejected e | Inr _ \<Rightarrow> Fulfilled JUndefined),
      issue (ClickElement el) s)"
| "click_el cfg drv (opts # inner) el s =
     (let filename = click_filename cfg s;
          s1 = (if ''source'' \<in> set opts then snd (source cfg drv filename s) else s);
          (r, s2) = snap cfg drv filename s1;
          (rc, s3) = click_el cfg drv inner el s2
      in (js_then r None None, case rc of Rejected e \<Rightarrow> unhandled e s3 | _ \<Rightarrow> s3))"

subsection \<open>The uncaught-exception listener\<close>

definition mark_handled :: "nat \<Rightarrow> 'a sys_scheme \<Rightarrow> 'a sys_scheme" where
  "mark_handled x s = s\<lparr>exns := (exns s)(x := (exns s x)\<lparr>ex_handled := True\<rparr>)\<rparr>"

text \<open>
  \<open>emit_from n ls x s\<close>: \<open>flow.emit(UNCAUGHT_EXCEPTION, exception)\<close> calling the
  listeners \<open>ls\<close> in order, with \<open>n\<close> frames of stack left. An observer records the
  exception object as it is at that moment. Our listener (lines 343--373) re-emits an
  exception already marked (the emitter calls every listener synchronously, this one
  included), then, with no \<open>return\<close>, marks it and schedules the \<open>getSession()\<close>
  continuation in any case. \<open>None\<close> is a stack overflow.
\<close>

fun emit_from :: "nat \<Rightarrow> listener list \<Rightarrow> nat \<Rightarrow> 'a sys_scheme \<Rightarrow> 'a sys_scheme option" where
  "emit_from 0 ls x s = None"
| "emit_from (Suc n) [] x s = Some s"
| "emit_from (Suc n) (Observer i # ls) x s =
     emit_from (Suc n) ls x (s\<lparr>observed := observed s @ [(i, exns s x)]\<rparr>)"
| "emit_from (Suc n) (NemoHook opts # ls) x s =
     (case (if ex_handled (exns s x) then emit_from n (listeners s) x s else Some s) of
        None \<Rightarrow> None
      | Some s1 \<Rightarrow> emit_from (Suc n) ls x ((mark_handled x s1)\<lparr>tasks := tasks s1 @ [(opts, x)]\<rparr>))"

definition emit :: "nat \<Rightarrow> nat \<Rightarrow> 'a sys_scheme \<Rightarrow> 'a sys_scheme option" where
  "emit n x s = emit_from n (listeners s) x s"

text \<open>The exception listeners installed by \<open>setup\<close>.\<close>

fun is_hook :: "listener \<Rightarrow> bool" where
  "is_hook (NemoHook _) = True"
| "is_hook (Observer _) = False"

definition hook_count :: "listener list \<Rightarrow> nat" where
  "hook_count ls = length (filter is_hook ls)"

definition exception_filename :: "config \<Rightarrow> 'a world_scheme \<Rightarrow> string" where
  "exception_filename cfg s =
     (if js_truthy (currentTestTitle s) then titleSlug (currentTestTitle s)
      else ''ScreenShot_onException-'' @ dec_string (pid cfg) @ ''-'' @ dec_string (w_now s))"

text \<open>
  The continuation of \<open>driver.getSession().then(...).catch(...)\<close> for the exception
  \<open>x\<close>. A failed query and a missing session (whose \<open>throw exception\<close> is caught by
  the \<open>.catch\<close>) both mark the caught value and re-emit \<open>x\<close>. With a session, the
  capture is named from the test title or the time; after a fulfilled \<open>snap\<close> the stack
  is annotated and \<open>x\<close> re-emitted; a rejected \<open>snap\<close> has no handler (unhandled), a
  pending one never continues.
\<close>

definition exn_task :: "nat \<Rightarrow> config \<Rightarrow> driver \<Rightarrow> string list \<Rightarrow> nat \<Rightarrow> 'a sys_scheme \<Rightarrow>
    'a sys_scheme option" where
  "exn_task n cfg drv opts x s =
     (case session_result drv of
        Inl e \<Rightarrow> emit n x s
      | Inr False \<Rightarrow> emit n x (mark_handled x s)
      | Inr True \<Rightarrow>
          (let filename = exception_filename cfg s;
               s1 = (if ''source'' \<in> set opts then snd (source cfg drv filename s) else s);
               (r, s2) = snap cfg drv filename s1
           in case r of
                Fulfilled imageObject \<Rightarrow>
                  emit n x (s2\<lparr>exns := (exns s2)(x := the (appendImageUrlToStackTrace imageObject (Some (exns s2 x))))\<rparr>)
              | Rejected e \<Rightarrow> Some (unhandled e s2)
              | Pending \<Rightarrow> Some s2))"

subsection \<open>A concrete system\<close>

text \<open>The example world of the capture theory, set up with the \<open>exception\<close> option, one downstream listener, and an unmarked exception object 0.\<close>

definition ex_sys :: sys where
  "ex_sys = \<lparr>w_fs = ex_fs, w_cmds = [], w_log = [], w_unhandled = [], w_now = 1000,
     screenShotPath = ''report'', autoCaptureOptions = [''exception''], currentTestTitle = None,
     click_wrappers = [], listeners = [NemoHook [''exception''], Observer 1],
     exns = (\<lambda>_. \<lparr>ex_stack = Some ''Error: boom'', ex_handled = False\<rparr>), observed = [], tasks = []\<rparr>"

subsection \<open>Lemmas\<close>

lemma snap_more: "world.more (snd (snap cfg drv f w)) = world.more w"
  by (auto simp: snap_def Let_def issue_def unhandled_def split: sum.splits prod.splits)

lemma source_more: "world.more (snd (source cfg drv f w)) = world.more w"
  by (auto simp: source_def Let_def issue_def unhandled_def split: sum.splits prod.splits)

lemma snap_cmds:
  "w_cmds (snd (snap cfg drv f w)) = w_cmds w @ (if session_handle drv then [TakeScreenshot] else [])"
  by (auto simp: snap_def Let_def issue_def unhandled_def split: sum.splits prod.splits)

lemma source_cmds:
  "w_cmds (snd (source cfg drv f w)) =
   w_cmds w @ (if session_handle drv then [ExecuteScript, GetPageSource] else [])"
  by (auto simp: source_def Let_def issue_def unhandled_def split: sum.splits prod.splits)

lemma emit_from_handled_None:
  "ex_handled (exns s x) \<Longrightarrow> \<exists>o1. NemoHook o1 \<in> set (listeners s) \<Longrightarrow>
   \<exists>o2. NemoHook o2 \<in> set ls \<Longrightarrow> emit_from n ls x s = None"
proof (induction n ls x s rule: emit_from.induct)
  case (3 n i ls x s)
  then show ?case by simp
next
  case (4 n opts ls x s)
  then show ?case by simp
qed simp_all

lemma emit_from_observers:
  "emit_from (Suc n) (map Observer is) x s = Some (s\<lparr>observed := observed s @ map (\<lambda>i. (i, exns s x)) is\<rparr>)"
  by (induction "is" arbitrary: s) simp_all


lemma hook_count_simps [simp]:
  "hook_count [] = 0"
  "hook_count (NemoHook o1 # ls) = Suc (hook_count ls)"
  "hook_count (Observer i # ls) = hook_count ls"
  "hook_count (ls @ ms) = hook_count ls + hook_count ms"
  by (simp_all add: hook_count_def)

lemma hook_count_pos: "0 < hook_count ls \<Longrightarrow> \<exists>o1. NemoHook o1 \<in> set ls"
proof (induction ls)
  case (Cons l ls)
  then show ?case by (cases l) auto
qed simp

lemma emit_from_returns:
  "(\<not> ex_handled (exns s x) \<and> hook_count ls \<le> 1) \<or> hook_count ls = 0 \<Longrightarrow>
   emit_from (Suc n) ls x s \<noteq> None"
proof (induction ls arbitrary: s)
  case (Cons l ls)
  then show ?case by (cases l) (auto simp: mark_handled_def)
qed simp

lemma emit_from_two_hooks_None:
  "\<exists>o1. NemoHook o1 \<in> set (listeners s) \<Longrightarrow>
   2 \<le> hook_count ls \<or> (ex_handled (exns s x) \<and> 1 \<le> hook_count ls) \<Longrightarrow>
   emit_from n ls x s = None"
proof (induction ls arbitrary: s)
  case Nil
  then show ?case by simp
next
  case (Cons l ls)
  show ?case
  proof (cases n)
    case (Suc m)
    show ?thesis
    proof (cases l)
      case (Observer i)
      with Cons Suc show ?thesis by simp
    next
      case (NemoHook o1)
      show ?thesis
      proof (cases "ex_handled (exns s x)")
        case True
        with Cons.prems(1) have "emit_from m (listeners s) x s = None"
          by (intro emit_from_handled_None) simp_all
        with NemoHook Suc True show ?thesis by simp
      next
        case False
        with Cons.prems NemoHook have "emit_from n ls x ((mark_handled x s)\<lparr>tasks := tasks s @ [(o1, x)]\<rparr>) = None"
          by (intro Cons.IH) (auto simp: mark_handled_def)
        with NemoHook Suc False show ?thesis by simp
      qed
    qed
  qed simp
qed

lemma install_listeners:
  "listeners (install p opts s) = listeners s @ (if ''exception'' \<in> set opts then [NemoHook opts] else [])"
  by (simp add: install_def)

lemma click_filename_flat: "CHR ''/'' \<notin> set (click_filename cfg s)"
  by (simp add: click_filename_def dec_string_no_slash)

lemma sys_frame:
  "world.more a = world.more b \<Longrightarrow>
   listeners a = listeners b \<and> exns a = exns b \<and> observed a = observed b \<and>
   tasks a = tasks b \<and> click_wrappers a = click_wrappers b"
  by (cases a, cases b) simp

lemma snap_sys_frame:
  "listeners (snd (snap cfg drv f s)) = listeners s \<and> exns (snd (snap cfg drv f s)) = exns s \<and>
   observed (snd (snap cfg drv f s)) = observed s"
  using sys_frame [OF snap_more [of cfg drv f s]] by simp

lemma source_sys_frame:
  "listeners (snd (source cfg drv f s)) = listeners s \<and> exns (snd (source cfg drv f s)) = exns s \<and>
   observed (snd (source cfg drv f s)) = observed s"
  using sys_frame [OF source_more [of cfg drv f s]] by simp

lemma annotate_handled:
  "ex_handled (the (appendImageUrlToStackTrace v (Some e))) = ex_handled e"
  by (simp add: appendImageUrlToStackTrace_def)

text \<open>C3 The getSession continuation of the exception listener never hands the exception to another listener: on every branch it either overflows the stack re-emitting an exception that is already marked, or it ends without any listener observing anything.\<close>

theorem exn_task_never_delivers:
  assumes h: "ex_handled (exns s x)" and l: "NemoHook o1 \<in> set (listeners s)"
  shows "exn_task n cfg drv opts x s = None \<or>
         (\<exists>s'. exn_task n cfg drv opts x s = Some s' \<and> observed s' = observed s)"
proof (cases "session_result drv")
  case (Inl e)
  with h l show ?thesis by (auto simp: exn_task_def emit_def intro!: emit_from_handled_None)
next
  case (Inr b)
  show ?thesis
  proof (cases b)
    case False
    with Inr h l show ?thesis
      by (auto simp: exn_task_def emit_def mark_handled_def intro!: emit_from_handled_None)
  next
    case True
    define s1 where "s1 = (if ''source'' \<in> set opts then snd (source cfg drv (exception_filename cfg s) s) else s)"
    have f1: "listeners s1 = listeners s \<and> exns s1 = exns s \<and> observed s1 = observed s"
      by (simp add: s1_def source_sys_frame)
    obtain r s2 where rs: "snap cfg drv (exception_filename cfg s) s1 = (r, s2)" by fastforce
    have f2: "listeners s2 = listeners s \<and> exns s2 = exns s \<and> observed s2 = observed s"
      using snap_sys_frame [of cfg drv "exception_filename cfg s" s1] f1 rs by simp
    have task: "exn_task n cfg drv opts x s =
      (case r of
         Fulfilled imageObject \<Rightarrow>
           emit n x (s2\<lparr>exns := (exns s2)(x := the (appendImageUrlToStackTrace imageObject (Some (exns s2 x))))\<rparr>)
       | Rejected e \<Rightarrow> Some (unhandled e s2)
       | Pending \<Rightarrow> Some s2)"
      using Inr True rs by (simp add: exn_task_def s1_def Let_def)
    show ?thesis
    proof (cases r)
      case (Fulfilled v)
      with task f2 h l show ?thesis
        by (auto simp: emit_def annotate_handled intro!: emit_from_handled_None)
    qed (use task f2 in \<open>simp_all add: unhandled_def\<close>)
  qed
qed

definition wrapper_cmds :: "string list \<Rightarrow> cmd list" where
  "wrapper_cmds opts = (if ''source'' \<in> set opts then [ExecuteScript, GetPageSource] else []) @ [TakeScreenshot]"

lemma click_el_cmds:
  "session_handle drv \<Longrightarrow>
   w_cmds (snd (click_el cfg drv ws el s)) = w_cmds s @ concat (map wrapper_cmds ws) @ [ClickElement el]"
proof (induction ws arbitrary: s)
  case Nil
  then show ?case by (simp add: issue_def)
next
  case (Cons opts ws)
  let ?f = "click_filename cfg s"
  let ?s1 = "if ''source'' \<in> set opts then snd (source cfg drv ?f s) else s"
  obtain r s2 where rs: "snap cfg drv ?f ?s1 = (r, s2)" by fastforce
  obtain rc s3 where rc: "click_el cfg drv ws el s2 = (rc, s3)" by fastforce
  have c2: "w_cmds s2 = w_cmds s @ wrapper_cmds opts"
    using snap_cmds [of cfg drv ?f ?s1] rs Cons.prems
    by (simp add: source_cmds wrapper_cmds_def)
  have c3: "w_cmds s3 = w_cmds s2 @ concat (map wrapper_cmds ws) @ [ClickElement el]"
    using Cons.IH [OF Cons.prems, of s2] rc by simp
  show ?case using rs rc c2 c3
    by (simp add: Let_def unhandled_def split: pstate.splits)
qed

lemma snap_ignores_click_result: "snap cfg (drv\<lparr>click_result := c\<rparr>) f w = snap cfg drv f w"
  by (simp add: snap_def Let_def)

lemma source_ignores_click_result: "source cfg (drv\<lparr>click_result := c\<rparr>) f w = source cfg drv f w"
  by (simp add: source_def Let_def)

text \<open>C16 The wrapped click returns the screenshot promise, not the click: a failing click gives the caller the same value as a succeeding one, and its error is left unhandled.\<close>

theorem click_outcome_lost:
  assumes "click_result drv = Inl e"
  shows "fst (click_el cfg drv [opts] el s) = fst (click_el cfg (drv\<lparr>click_result := Inr ()\<rparr>) [opts] el s) \<and>
         e \<in> set (w_unhandled (snd (click_el cfg drv [opts] el s)))"
  using assms
  by (simp add: Let_def snap_ignores_click_result source_ignores_click_result unhandled_def
      split: prod.splits)

text \<open>C20 One click through a wrapper issues its page-source request (when configured) and its screenshot before the click itself, in that order on the command queue.\<close>

theorem click_captures_before_click:
  "session_handle drv \<Longrightarrow>
   w_cmds (snd (click_el cfg drv [opts] el s)) =
   w_cmds s @ (if ''source'' \<in> set opts then [ExecuteScript, GetPageSource] else []) @
   [TakeScreenshot, ClickElement el]"
  by (subst click_el_cmds) (simp_all add: wrapper_cmds_def)

text \<open>C34 Calling setup twice with the click option wraps click twice: every click then takes two screenshots before clicking.\<close>

theorem repeated_setup_double_capture:
  assumes "session_handle drv" "''click'' \<in> set opts" "''source'' \<notin> set opts"
    "click_wrappers s = []"
    "nemo_setup (Setup4 p opts) s = Inr s1" "nemo_setup (Setup4 p opts) s1 = Inr s2"
  shows "w_cmds (snd (click_el cfg drv (click_wrappers s2) el s2)) =
         w_cmds s2 @ [TakeScreenshot, TakeScreenshot, ClickElement el]"
  using assms by (auto simp: nemo_setup_def install_def click_el_cmds wrapper_cmds_def)

text \<open>C21 The first time an unmarked exception is emitted, the listener marks it, schedules one getSession continuation, and every downstream listener observes it once, already marked.\<close>

theorem first_emission:
  assumes "\<not> ex_handled (exns s x)" "listeners s = NemoHook opts # map Observer is"
  shows "emit (Suc n) x s =
    Some ((mark_handled x s)\<lparr>tasks := tasks s @ [(opts, x)],
          observed := observed s @ map (\<lambda>i. (i, (exns s x)\<lparr>ex_handled := True\<rparr>)) is\<rparr>)"
  using assms by (simp add: emit_def emit_from_observers mark_handled_def)

text \<open>C2 Re-emitting an exception that is already marked never returns, whatever the stack
  depth: \<open>flow.emit\<close> calls the listener itself again, which finds the exception still marked
  and re-emits it once more, so the recursion only ends when the stack overflows.\<close>

theorem emit_handled_overflows:
  "ex_handled (exns s x) \<Longrightarrow> NemoHook opts \<in> set (listeners s) \<Longrightarrow> emit n x s = None"
  unfolding emit_def by (rule emit_from_handled_None) auto

theorem emit_handled_overflows_witness:
  "ex_handled (exns (mark_handled 0 ex_sys) 0) \<and>
   NemoHook [''exception''] \<in> set (listeners (mark_handled 0 ex_sys)) \<and>
   emit 1000 0 (mark_handled 0 ex_sys) = None"
proof -
  have h: "ex_handled (exns (mark_handled 0 ex_sys) 0)"
    "NemoHook [''exception''] \<in> set (listeners (mark_handled 0 ex_sys))"
    by (simp_all add: ex_sys_def mark_handled_def)
  from emit_handled_overflows [OF h, of 1000] h show ?thesis by simp
qed

theorem first_emission_witness:
  "\<not> ex_handled (exns ex_sys 0) \<and> listeners ex_sys = NemoHook [''exception''] # map Observer [1] \<and>
   emit 3 0 ex_sys = Some ((mark_handled 0 ex_sys)\<lparr>tasks := [([''exception''], 0)],
     observed := [(1, \<lparr>ex_stack = Some ''Error: boom'', ex_handled = True\<rparr>)]\<rparr>)"
proof -
  have h: "\<not> ex_handled (exns ex_sys 0)" "listeners ex_sys = NemoHook [''exception''] # map Observer [1]"
    by (simp_all add: ex_sys_def)
  from first_emission [OF h, of 2] h show ?thesis by (simp add: ex_sys_def)
qed

theorem exn_task_never_delivers_witness:
  "ex_handled (exns (mark_handled 0 ex_sys) 0) \<and>
   NemoHook [''exception''] \<in> set (listeners (mark_handled 0 ex_sys)) \<and>
   (exn_task 1000 ex_cfg ex_drv [''exception''] 0 (mark_handled 0 ex_sys) = None \<or>
    (\<exists>s'. exn_task 1000 ex_cfg ex_drv [''exception''] 0 (mark_handled 0 ex_sys) = Some s' \<and>
          observed s' = observed (mark_handled 0 ex_sys)))"
proof -
  have h: "ex_handled (exns (mark_handled 0 ex_sys) 0)"
    "NemoHook [''exception''] \<in> set (listeners (mark_handled 0 ex_sys))"
    by (simp_all add: ex_sys_def mark_handled_def)
  from exn_task_never_delivers [OF h, of 1000 ex_cfg ex_drv "[''exception'']"] h show ?thesis by simp
qed

theorem click_outcome_lost_witness:
  "click_result (ex_drv\<lparr>click_result := Inl (JsError ''stale element'')\<rparr>) = Inl (JsError ''stale element'') \<and>
   fst (click_el ex_cfg (ex_drv\<lparr>click_result := Inl (JsError ''stale element'')\<rparr>) [[''click'']] 7 ex_world) =
   fst (click_el ex_cfg (ex_drv\<lparr>click_result := Inl (JsError ''stale element''), click_result := Inr ()\<rparr>) [[''click'']] 7 ex_world) \<and>
   JsError ''stale element'' \<in> set (w_unhandled (snd (click_el ex_cfg (ex_drv\<lparr>click_result := Inl (JsError ''stale element'')\<rparr>) [[''click'']] 7 ex_world)))"
proof -
  have h: "click_result (ex_drv\<lparr>click_result := Inl (JsError ''stale element'')\<rparr>) = Inl (JsError ''stale element'')"
    by simp
  from click_outcome_lost [OF h, of ex_cfg "[''click'']" 7 ex_world] h show ?thesis by blast
qed

theorem click_captures_before_click_witness:
  "session_handle ex_drv \<and>
   w_cmds (snd (click_el ex_cfg ex_drv [[''click'', ''source'']] 7 ex_world)) =
   [ExecuteScript, GetPageSource, TakeScreenshot, ClickElement 7]"
proof -
  have h: "session_handle ex_drv" by (simp add: ex_drv_def)
  from click_captures_before_click [OF h, of ex_cfg "[''click'', ''source'']" 7 ex_world] h
  show ?thesis by (simp add: ex_world_def)
qed

theorem repeated_setup_double_capture_witness:
  "nemo_setup (Setup4 ''report'' [''click'']) ex_sys = Inr (install ''report'' [''click''] ex_sys) \<and>
   nemo_setup (Setup4 ''report'' [''click'']) (install ''report'' [''click''] ex_sys) =
     Inr (install ''report'' [''click''] (install ''report'' [''click''] ex_sys)) \<and>
   w_cmds (snd (click_el ex_cfg ex_drv (click_wrappers (install ''report'' [''click''] (install ''report'' [''click''] ex_sys))) 7
     (install ''report'' [''click''] (install ''report'' [''click''] ex_sys)))) =
   [TakeScreenshot, TakeScreenshot, ClickElement 7]"
proof -
  have h: "session_handle ex_drv" "''click'' \<in> set [''click'']" "''source'' \<notin> set [''click'']"
    "click_wrappers ex_sys = []"
    "nemo_setup (Setup4 ''report'' [''click'']) ex_sys = Inr (install ''report'' [''click''] ex_sys)"
    "nemo_setup (Setup4 ''report'' [''click'']) (install ''report'' [''click''] ex_sys) =
       Inr (install ''report'' [''click''] (install ''report'' [''click''] ex_sys))"
    by (simp_all add: ex_drv_def ex_sys_def nemo_setup_def)
  from repeated_setup_double_capture [OF h, of ex_cfg 7] h show ?thesis
    by (simp add: install_def ex_sys_def)
qed


text \<open>C27 The file names the hooks choose (the slugged test title or
  \<open>ScreenShot_onException-pid-time\<close>, and \<open>ScreenShot_onClick-pid-time\<close>) never contain a
  path separator, so hook captures always land directly in the configured directory.\<close>

theorem hook_filenames_flat:
  "CHR ''/'' \<notin> set (exception_filename cfg s) \<and> CHR ''/'' \<notin> set (click_filename cfg s)"
  by (simp add: exception_filename_def click_filename_def titleSlug_no_slash dec_string_no_slash)


text \<open>C19 With at most one exception listener installed, emitting an exception not yet marked
  returns, given one frame of stack: the listener marks it, and no later listener
  re-emits it.\<close>

theorem emit_single_hook_returns:
  "\<not> ex_handled (exns s x) \<Longrightarrow> hook_count (listeners s) \<le> 1 \<Longrightarrow> \<exists>s'. emit (Suc n) x s = Some s'"
  using emit_from_returns [of s x "listeners s" n] by (auto simp: emit_def)

text \<open>C4 Calling \<open>setup\<close> twice with the \<open>exception\<close> option installs two listeners, and then
  every uncaught exception, even a fresh one, overflows the stack: the first listener marks
  it and the second re-emits it.\<close>

theorem repeated_exception_setup_overflows:
  assumes "''exception'' \<in> set opts" "nemo_setup (Setup4 p opts) s = Inr s1" "nemo_setup (Setup4 p opts) s1 = Inr s2"
  shows "emit n x s2 = None"
proof -
  have l: "listeners s2 = listeners s @ [NemoHook opts, NemoHook opts]"
    using assms by (auto simp: nemo_setup_def install_listeners)
  then have "2 \<le> hook_count (listeners s2)" by simp
  with l show ?thesis unfolding emit_def by (intro emit_from_two_hooks_None) auto
qed

theorem emit_single_hook_returns_witness:
  "\<not> ex_handled (exns ex_sys 0) \<and> hook_count (listeners ex_sys) \<le> 1 \<and> (\<exists>s'. emit 1 0 ex_sys = Some s')"
proof -
  have h: "\<not> ex_handled (exns ex_sys 0)" "hook_count (listeners ex_sys) \<le> 1" by (simp_all add: ex_sys_def)
  from emit_single_hook_returns [OF h, of 0] h show ?thesis by simp
qed

theorem repeated_exception_setup_overflows_witness:
  "nemo_setup (Setup4 ''report'' [''exception'']) ex_sys = Inr (install ''report'' [''exception''] ex_sys) \<and>
   nemo_setup (Setup4 ''report'' [''exception'']) (install ''report'' [''exception''] ex_sys) =
     Inr (install ''report'' [''exception''] (install ''report'' [''exception''] ex_sys)) \<and>
   emit 1000 0 (install ''report'' [''exception''] (install ''report'' [''exception''] ex_sys)) = None"
proof -
  have h: "nemo_setup (Setup4 ''report'' [''exception'']) ex_sys = Inr (install ''report'' [''exception''] ex_sys)"
    "nemo_setup (Setup4 ''report'' [''exception'']) (install ''report'' [''exception''] ex_sys) =
     Inr (install ''report'' [''exception''] (install ''report'' [''exception''] ex_sys))"
    by (simp_all add: nemo_setup_def)
  from repeated_exception_setup_overflows [OF _ h, of 1000 0] h show ?thesis by simp
qed

end
