(* ===== verification/System.thy ===== *)
theory System
  imports Hooks
begin

text \<open>
  The plugin as a state machine. A state is the record \<open>sys\<close> of \<open>Hooks\<close>. A step is one
  call the test code or the driver can make: \<open>setup\<close>, \<open>snap\<close>, \<open>source\<close>, \<open>done\<close>,
  \<open>setCurrentTestTitle\<close>, a click through the installed wrappers, an uncaught exception
  that the flow emits and that returns, one scheduled \<open>getSession\<close> continuation, or the
  clock advancing. Each step may meet a different driver answer. \<open>reachable cfg s0\<close>
  is the set of states a run from \<open>s0\<close> reaches. The invariant \<open>sys_inv\<close> (file-system
  well-formedness, wrappers installed only for \<open>click\<close>, listeners only for
  \<open>exception\<close>, every continuation scheduled by an installed listener) holds along every
  run, and the file system only grows.
\<close>


definition tasks_ok :: "'a sys_scheme \<Rightarrow> bool" where
  "tasks_ok s = (\<forall>(o1, y) \<in> set (tasks s). NemoHook o1 \<in> set (listeners s))"

definition sys_inv :: "sys \<Rightarrow> bool" where
  "sys_inv s =
     (fs_inv (w_fs s) \<and> (\<forall>ws \<in> set (click_wrappers s). ''click'' \<in> set ws) \<and>
      (\<forall>l \<in> set (listeners s). case l of NemoHook opts \<Rightarrow> ''exception'' \<in> set opts | Observer _ \<Rightarrow> True) \<and>
      tasks_ok s)"

text \<open>One step of the plugin, for any driver answers.\<close>

inductive plugin_step :: "config \<Rightarrow> sys \<Rightarrow> sys \<Rightarrow> bool" where
  setup_step: "nemo_setup a s = Inr s' \<Longrightarrow> plugin_step cfg s s'"
| snap_step: "plugin_step cfg s (snd (snap cfg drv f s))"
| source_step: "plugin_step cfg s (snd (source cfg drv f s))"
| finish_step: "plugin_step cfg s (snd (screenshot_done cfg drv f err s))"
| title_step: "plugin_step cfg s (setCurrentTestTitle t s)"
| click_step: "plugin_step cfg s (snd (click_el cfg drv (click_wrappers s) el s))"
| emit_step: "emit n x s = Some s' \<Longrightarrow> plugin_step cfg s s'"
| task_step: "tasks s = (opts, x) # rest \<Longrightarrow> exn_task n cfg drv opts x (s\<lparr>tasks := rest\<rparr>) = Some s' \<Longrightarrow>
         plugin_step cfg s s'"
| tick_step: "w_now s \<le> t \<Longrightarrow> plugin_step cfg s (s\<lparr>w_now := t\<rparr>)"

inductive reachable :: "config \<Rightarrow> sys \<Rightarrow> sys \<Rightarrow> bool" where
  start: "reachable cfg s0 s0"
| step: "reachable cfg s0 s \<Longrightarrow> plugin_step cfg s t \<Longrightarrow> reachable cfg s0 t"

text \<open>A run: \<open>setup\<close> with the click option on the concrete system, then one \<open>snap\<close>.\<close>

definition ex_run_state :: sys where
  "ex_run_state = snd (snap ex_cfg ex_drv ''shot'' (install ''report'' [''click''] ex_sys))"

subsection \<open>Frames and preservation\<close>

lemma click_el_Cons_fs:
  "w_fs (snd (click_el cfg drv (opts # inner) el s)) =
   w_fs (snd (click_el cfg drv inner el (snd (snap cfg drv (click_filename cfg s)
     (if ''source'' \<in> set opts then snd (source cfg drv (click_filename cfg s) s) else s)))))"
  by (simp only: click_el.simps Let_def split_def) (simp add: unhandled_def split: pstate.split)

lemma click_el_fs_step:
  "fs_inv (w_fs s) \<Longrightarrow> fs_step (w_fs s) (w_fs (snd (click_el cfg drv ws el s)))"
proof (induction ws arbitrary: s)
  case Nil
  then show ?case by (simp add: issue_def fs_step_refl)
next
  case (Cons opts inner)
  let ?f = "click_filename cfg s"
  let ?s1 = "if ''source'' \<in> set opts then snd (source cfg drv ?f s) else s"
  have 1: "fs_step (w_fs s) (w_fs ?s1)"
    using Cons.prems by (simp add: source_fs_step fs_step_refl)
  then have 2: "fs_step (w_fs s) (w_fs (snd (snap cfg drv ?f ?s1)))"
    by (meson fs_step_inv fs_step_trans snap_fs_step)
  then have "fs_step (w_fs s) (w_fs (snd (click_el cfg drv inner el (snd (snap cfg drv ?f ?s1)))))"
    by (meson Cons.IH fs_step_inv fs_step_trans)
  then show ?case by (simp only: click_el_Cons_fs)
qed

lemma click_el_more: "world.more (snd (click_el cfg drv ws el s)) = world.more s"
proof (induction ws arbitrary: s)
  case Nil
  then show ?case by (simp add: issue_def)
next
  case (Cons opts inner)
  then show ?case
    by (simp only: click_el.simps Let_def split_def)
       (simp add: unhandled_def snap_more source_more split: pstate.split)
qed

lemma done_more: "world.more (snd (screenshot_done cfg drv f err w)) = world.more w"
proof (cases "snap cfg drv f w")
  case (Pair r w')
  with snap_more [of cfg drv f w] show ?thesis by (cases r) (simp_all add: screenshot_done_def)
qed

lemma emit_from_frame:
  "emit_from n ls x s = Some s' \<Longrightarrow> set ls \<subseteq> set (listeners s) \<Longrightarrow> tasks_ok s \<Longrightarrow>
   tasks_ok s' \<and> w_fs s' = w_fs s \<and> listeners s' = listeners s \<and> click_wrappers s' = click_wrappers s"
proof (induction n ls x s arbitrary: s' rule: emit_from.induct)
  case (3 n i ls x s)
  let ?s = "s\<lparr>observed := observed s @ [(i, exns s x)]\<rparr>"
  have "emit_from (Suc n) ls x ?s = Some s'" using "3.prems"(1) by simp
  moreover have "set ls \<subseteq> set (listeners ?s)" using "3.prems"(2) by simp
  moreover have "tasks_ok ?s" using "3.prems"(3) by (simp add: tasks_ok_def)
  ultimately have "tasks_ok s' \<and> w_fs s' = w_fs ?s \<and> listeners s' = listeners ?s \<and> click_wrappers s' = click_wrappers ?s"
    by (rule "3.IH")
  then show ?case by simp
next
  case (4 n opts ls x s)
  let ?m = "\<lambda>s1. (mark_handled x s1)\<lparr>tasks := tasks s1 @ [(opts, x)]\<rparr>"
  obtain s1 where s1: "(if ex_handled (exns s x) then emit_from n (listeners s) x s else Some s) = Some s1"
    and rest: "emit_from (Suc n) ls x (?m s1) = Some s'"
    using "4.prems"(1) by (auto split: option.splits)
  have f1: "tasks_ok s1 \<and> w_fs s1 = w_fs s \<and> listeners s1 = listeners s \<and> click_wrappers s1 = click_wrappers s"
  proof (cases "ex_handled (exns s x)")
    case True
    with s1 have "emit_from n (listeners s) x s = Some s1" by simp
    from "4.IH"(1) [OF True this order_refl "4.prems"(3)] show ?thesis .
  next
    case False
    with s1 "4.prems"(3) show ?thesis by simp
  qed
  have "set ls \<subseteq> set (listeners (?m s1))" using "4.prems"(2) f1 by (simp add: mark_handled_def)
  moreover have "tasks_ok (?m s1)" using "4.prems"(2) f1 by (auto simp: tasks_ok_def mark_handled_def)
  ultimately have "tasks_ok s' \<and> w_fs s' = w_fs (?m s1) \<and> listeners s' = listeners (?m s1) \<and>
      click_wrappers s' = click_wrappers (?m s1)"
    using "4.IH"(2) [OF s1 rest] by blast
  with f1 show ?case by (simp add: mark_handled_def)
qed simp_all

lemma tasks_ok_more: "world.more a = world.more b \<Longrightarrow> tasks_ok a = tasks_ok b"
  using sys_frame [of a b] by (simp add: tasks_ok_def)

lemma mark_handled_frame [simp]:
  "w_fs (mark_handled x s) = w_fs s" "listeners (mark_handled x s) = listeners s"
  "click_wrappers (mark_handled x s) = click_wrappers s" "tasks (mark_handled x s) = tasks s"
  by (simp_all add: mark_handled_def)

lemma emit_frame:
  "emit n x s = Some s' \<Longrightarrow> tasks_ok s \<Longrightarrow>
   tasks_ok s' \<and> w_fs s' = w_fs s \<and> listeners s' = listeners s \<and> click_wrappers s' = click_wrappers s"
  unfolding emit_def by (erule emit_from_frame) simp_all

lemma tasks_ok_upd [simp]:
  "tasks_ok (s\<lparr>exns := e\<rparr>) = tasks_ok s" "tasks_ok (unhandled err s) = tasks_ok s"
  by (simp_all add: tasks_ok_def unhandled_def)

lemma unhandled_sel [simp]:
  "w_fs (unhandled e w) = w_fs w" "listeners (unhandled e s) = listeners s"
  "click_wrappers (unhandled e s) = click_wrappers s"
  by (simp_all add: unhandled_def)

lemma emit_frame_step:
  "emit n x s1 = Some s' \<Longrightarrow> tasks_ok s1 \<Longrightarrow> fs_step fs (w_fs s1) \<Longrightarrow>
   tasks_ok s' \<and> fs_step fs (w_fs s') \<and> listeners s' = listeners s1 \<and> click_wrappers s' = click_wrappers s1"
  by (drule (1) emit_frame) simp

lemma capture_step_frame:
  assumes "world.more s1 = world.more s" "fs_inv (w_fs s)" "fs_step (w_fs s) (w_fs s1)"
  shows "tasks_ok s1 = tasks_ok s \<and> listeners s1 = listeners s \<and> click_wrappers s1 = click_wrappers s"
  using assms sys_frame [OF assms(1)] tasks_ok_more [OF assms(1)] by simp

lemma exn_task_frame:
  assumes ex: "exn_task n cfg drv opts x s = Some s'" and ok: "tasks_ok s" and inv: "fs_inv (w_fs s)"
  shows "tasks_ok s' \<and> fs_step (w_fs s) (w_fs s') \<and> listeners s' = listeners s \<and> click_wrappers s' = click_wrappers s"
proof (cases "session_result drv")
  case (Inl e)
  with ex have "emit n x s = Some s'" by (simp add: exn_task_def)
  from emit_frame_step [OF this ok fs_step_refl [OF inv]] show ?thesis .
next
  case (Inr b)
  show ?thesis
  proof (cases b)
    case False
    with Inr ex have "emit n x (mark_handled x s) = Some s'" by (simp add: exn_task_def)
    moreover have "tasks_ok (mark_handled x s)" using ok by (simp add: tasks_ok_def)
    moreover have "fs_step (w_fs s) (w_fs (mark_handled x s))" using inv by (simp add: fs_step_refl)
    ultimately show ?thesis by (auto dest: emit_frame_step)
  next
    case True
    let ?f = "exception_filename cfg s"
    let ?s1 = "if ''source'' \<in> set opts then snd (source cfg drv ?f s) else s"
    let ?s2 = "snd (snap cfg drv ?f ?s1)"
    have m: "world.more ?s2 = world.more s" by (simp add: snap_more source_more)
    have st1: "fs_step (w_fs s) (w_fs ?s1)" using inv by (simp add: source_fs_step fs_step_refl)
    then have st: "fs_step (w_fs s) (w_fs ?s2)" by (meson fs_step_inv fs_step_trans snap_fs_step)
    have fr: "tasks_ok ?s2 \<and> listeners ?s2 = listeners s \<and> click_wrappers ?s2 = click_wrappers s"
      using capture_step_frame [OF m inv st] ok by simp
    have ex2: "(case fst (snap cfg drv ?f ?s1) of
                Fulfilled v \<Rightarrow> emit n x (?s2\<lparr>exns := (exns ?s2)(x := the (appendImageUrlToStackTrace v (Some (exns ?s2 x))))\<rparr>)
              | Rejected e \<Rightarrow> Some (unhandled e ?s2)
              | Pending \<Rightarrow> Some ?s2) = Some s'"
      using ex Inr True by (simp add: exn_task_def Let_def split_def)
    show ?thesis
    proof (cases "fst (snap cfg drv ?f ?s1)")
      case (Fulfilled v)
      with ex2 have "emit n x (?s2\<lparr>exns := (exns ?s2)(x := the (appendImageUrlToStackTrace v (Some (exns ?s2 x))))\<rparr>) = Some s'"
        by simp
      moreover have "tasks_ok (?s2\<lparr>exns := (exns ?s2)(x := the (appendImageUrlToStackTrace v (Some (exns ?s2 x))))\<rparr>)"
        using fr by (simp only: tasks_ok_upd)
      moreover have "fs_step (w_fs s) (w_fs (?s2\<lparr>exns := (exns ?s2)(x := the (appendImageUrlToStackTrace v (Some (exns ?s2 x))))\<rparr>))"
        using st by simp
      ultimately show ?thesis using fr by (auto dest: emit_frame_step)
    qed (use ex2 fr st in auto)
  qed
qed

lemma sys_inv_more:
  "world.more t = world.more s \<Longrightarrow> fs_step (w_fs s) (w_fs t) \<Longrightarrow> sys_inv s \<Longrightarrow> sys_inv t \<and> fs_mono (w_fs s) (w_fs t)"
  using sys_frame [of t s] tasks_ok_more [of t s] by (simp add: sys_inv_def fs_step_def)

lemma sys_inv_install:
  "sys_inv s \<Longrightarrow> sys_inv (install p opts s) \<and> fs_mono (w_fs s) (w_fs (install p opts s))"
  by (auto simp: sys_inv_def install_def tasks_ok_def fs_mono_def)

lemma plugin_step_inv:
  "plugin_step cfg s t \<Longrightarrow> sys_inv s \<Longrightarrow> sys_inv t \<and> fs_mono (w_fs s) (w_fs t)"
proof (induction rule: plugin_step.induct)
  case (setup_step a s s' cfg)
  then show ?case by (auto simp: nemo_setup_def sys_inv_install split: setup_args.splits)
next
  case (snap_step cfg s drv f)
  then show ?case by (intro sys_inv_more snap_more snap_fs_step) (simp_all add: sys_inv_def)
next
  case (source_step cfg s drv f)
  then show ?case by (intro sys_inv_more source_more source_fs_step) (simp_all add: sys_inv_def)
next
  case (finish_step cfg s drv f err)
  then show ?case by (intro sys_inv_more done_more) (simp_all add: done_fs snap_fs_step sys_inv_def)
next
  case (title_step s cfg t)
  then show ?case by (simp add: setCurrentTestTitle_def sys_inv_def tasks_ok_def fs_mono_def)
next
  case (click_step cfg s drv el)
  then show ?case by (intro sys_inv_more click_el_more click_el_fs_step) (simp_all add: sys_inv_def)
next
  case (emit_step n x s s' cfg)
  then have "tasks_ok s" by (simp add: sys_inv_def)
  from emit_frame [OF emit_step.hyps this] emit_step.prems show ?case
    by (simp add: sys_inv_def fs_mono_def)
next
  case (task_step s opts x rest n cfg drv s')
  have ok: "tasks_ok (s\<lparr>tasks := rest\<rparr>)" using task_step.prems task_step.hyps(1) by (simp add: sys_inv_def tasks_ok_def)
  have inv: "fs_inv (w_fs (s\<lparr>tasks := rest\<rparr>))" using task_step.prems by (simp add: sys_inv_def)
  from exn_task_frame [OF task_step.hyps(2) ok inv] task_step.prems show ?case
    by (simp add: sys_inv_def fs_step_def)
next
  case (tick_step s t cfg)
  then show ?case by (simp add: sys_inv_def tasks_ok_def fs_mono_def)
qed

lemma reachable_inv_mono:
  "reachable cfg s0 s \<Longrightarrow> sys_inv s0 \<Longrightarrow> sys_inv s \<and> fs_mono (w_fs s0) (w_fs s)"
proof (induction rule: reachable.induct)
  case (start cfg s0)
  then show ?case by (simp add: fs_mono_def)
next
  case (step cfg s0 s t)
  then show ?case using plugin_step_inv [OF step.hyps(2)] by (blast intro: fs_mono_trans)
qed

lemma ex_sys_inv: "sys_inv ex_sys"
  by (simp add: sys_inv_def ex_sys_def ex_fs_inv tasks_ok_def)

lemma ex_run_reachable: "reachable ex_cfg ex_sys ex_run_state"
proof -
  have "reachable ex_cfg ex_sys (install ''report'' [''click''] ex_sys)"
    by (rule reachable.step [OF reachable.start]) (rule plugin_step.setup_step [where a = "Setup4 ''report'' [''click'']"], simp add: nemo_setup_def)
  then show ?thesis unfolding ex_run_state_def by (rule reachable.step) (rule plugin_step.snap_step)
qed

subsection \<open>Properties of runs\<close>

text \<open>C12 Along every run of the plugin from a well-formed state, the invariant holds: the
  file system stays well formed, every click wrapper was installed for the \<open>click\<close>
  option, every listener for the \<open>exception\<close> option, and every pending \<open>getSession\<close>
  continuation belongs to an installed listener.\<close>

theorem reachable_sys_inv:
  "reachable cfg s0 s \<Longrightarrow> sys_inv s0 \<Longrightarrow> sys_inv s"
  using reachable_inv_mono by blast


theorem reachable_sys_inv_witness:
  "reachable ex_cfg ex_sys ex_run_state \<and> sys_inv ex_sys \<and> sys_inv ex_run_state"
  using reachable_sys_inv [OF ex_run_reachable ex_sys_inv] ex_run_reachable ex_sys_inv by blast


end
