(* ===== verification/Json16.thy ===== *)
theory Json16
  imports Prelude
begin

text \<open>
  \<open>JSON.stringify\<close> as the page script applies it to its result (\<open>src/index.js\<close>
  line 269), over UTF-16 code units: the values it meets (arrays, objects with ordered
  keys, integers, strings, booleans, \<open>null\<close> and \<open>undefined\<close>), and ES2019's
  \<open>QuoteJSONString\<close>, which escapes the quote, the backslash and the control units,
  keeps a well-formed surrogate pair as it is and escapes a lone surrogate as
  \<open>\uXXXX\<close>. A decoder for JSON strings shows that nothing is lost.
\<close>

datatype jv = JVNull | JVUndef | JVBool bool | JVNum int | JVStr u16string
  | JVArr "jv list" | JVObj "(u16string \<times> jv) list"

definition hexd16 :: "nat \<Rightarrow> 16 word" where
  "hexd16 d = of_nat (if d < 10 then 48 + d else 87 + d)"

text \<open>\<open>\uXXXX\<close> with lowercase hexadecimal digits.\<close>

definition uesc16 :: "16 word \<Rightarrow> u16string" where
  "uesc16 c = (let u = unat c in
     [92, 117, hexd16 (u div 4096), hexd16 (u div 256 mod 16), hexd16 (u div 16 mod 16), hexd16 (u mod 16)])"

definition esc16 :: "16 word \<Rightarrow> u16string" where
  "esc16 c =
     (let n = unat c in
        if n = 8 then [92, 98] else if n = 9 then [92, 116] else if n = 10 then [92, 110]
        else if n = 12 then [92, 102] else if n = 13 then [92, 114]
        else if n = 34 then [92, 34] else if n = 92 then [92, 92]
        else if n < 32 then uesc16 c else [c])"

definition is_high :: "16 word \<Rightarrow> bool" where "is_high c = (0xD800 \<le> unat c \<and> unat c \<le> 0xDBFF)"
definition is_low :: "16 word \<Rightarrow> bool" where "is_low c = (0xDC00 \<le> unat c \<and> unat c \<le> 0xDFFF)"

fun quote_units :: "u16string \<Rightarrow> u16string" where
  "quote_units [] = []"
| "quote_units [c] = (if is_high c \<or> is_low c then uesc16 c else esc16 c)"
| "quote_units (c # d # cs) =
     (if is_high c \<and> is_low d then c # d # quote_units cs
      else if is_high c \<or> is_low c then uesc16 c @ quote_units (d # cs)
      else esc16 c @ quote_units (d # cs))"

definition quote16 :: "u16string \<Rightarrow> u16string" where
  "quote16 s = 34 # quote_units s @ [34]"

definition int_str16 :: "int \<Rightarrow> u16string" where
  "int_str16 n = (if n < 0 then [45] else []) @ u16 (dec_string (nat \<bar>n\<bar>))"

text \<open>\<open>SerializeJSONProperty\<close> for the values above: \<open>undefined\<close> is \<open>null\<close> in an array
  and leaves out its property in an object.\<close>

fun js16 :: "jv \<Rightarrow> u16string"
and js16_elems :: "jv list \<Rightarrow> u16string list"
and js16_props :: "(u16string \<times> jv) list \<Rightarrow> u16string list" where
  "js16 JVNull = u16 ''null''"
| "js16 JVUndef = u16 ''null''"
| "js16 (JVBool b) = u16 (if b then ''true'' else ''false'')"
| "js16 (JVNum n) = int_str16 n"
| "js16 (JVStr s) = quote16 s"
| "js16 (JVArr vs) = 91 # join_with 44 (js16_elems vs) @ [93]"
| "js16 (JVObj ps) = 123 # join_with 44 (js16_props ps) @ [125]"
| "js16_elems [] = []"
| "js16_elems (v # vs) = js16 v # js16_elems vs"
| "js16_props [] = []"
| "js16_props ((k, v) # ps) =
     (if v = JVUndef then js16_props ps else (quote16 k @ [58] @ js16 v) # js16_props ps)"

subsection \<open>Reading a JSON string back\<close>

text \<open>The string grammar of \<open>JSON.parse\<close> over code units: escapes (\<open>\uXXXX\<close> for any unit),
  and ordinary units other than the quote, the backslash and the controls.\<close>

definition hexv16 :: "16 word \<Rightarrow> nat option" where
  "hexv16 c =
     (let n = unat c in
        if 48 \<le> n \<and> n \<le> 57 then Some (n - 48)
        else if 97 \<le> n \<and> n \<le> 102 then Some (n - 87)
        else if 65 \<le> n \<and> n \<le> 70 then Some (n - 55)
        else None)"

definition simple16 :: "16 word \<Rightarrow> 16 word option" where
  "simple16 d =
     (if d = 34 \<or> d = 92 \<or> d = 47 then Some d else if d = 98 then Some 8 else if d = 102 then Some 12
      else if d = 110 then Some 10 else if d = 114 then Some 13 else if d = 116 then Some 9 else None)"

fun unesc16 :: "u16string \<Rightarrow> u16string option" where
  "unesc16 [] = Some []"
| "unesc16 [c] = (if c = 92 \<or> c = 34 \<or> unat c < 32 then None else Some [c])"
| "unesc16 (c # d # cs) =
     (if c = 92 then
        (if d = 117 then
           (case cs of
              a # b # e # f # rest \<Rightarrow>
                (case (hexv16 a, hexv16 b, hexv16 e, hexv16 f) of
                   (Some w, Some x, Some y, Some z) \<Rightarrow>
                     map_option (Cons (of_nat (((w * 16 + x) * 16 + y) * 16 + z))) (unesc16 rest)
                 | _ \<Rightarrow> None)
            | _ \<Rightarrow> None)
         else (case simple16 d of None \<Rightarrow> None | Some e \<Rightarrow> map_option (Cons e) (unesc16 cs)))
      else if c = 34 \<or> unat c < 32 then None
      else map_option (Cons c) (unesc16 (d # cs)))"

definition unquote16 :: "u16string \<Rightarrow> u16string option" where
  "unquote16 p =
     (case p of
        [] \<Rightarrow> None
      | c # rest \<Rightarrow> if c = 34 \<and> rest \<noteq> [] \<and> last rest = 34 then unesc16 (butlast rest) else None)"

subsection \<open>Lemmas\<close>

lemma hexv16_hexd16: "d < 16 \<Longrightarrow> hexv16 (hexd16 d) = Some d"
  by (auto simp: hexv16_def hexd16_def unat_of_nat)

lemma hex_recombine:
  fixes u :: nat
  shows "((u div 4096 * 16 + u div 256 mod 16) * 16 + u div 16 mod 16) * 16 + u mod 16 = u"
proof -
  have a: "u = u mod 16 + 16 * (u div 16)" by simp
  have b: "u div 16 = u div 16 mod 16 + 16 * (u div 256)"
    using div_mult2_eq [of u 16 16] by simp
  have c: "u div 256 = u div 256 mod 16 + 16 * (u div 4096)"
    using div_mult2_eq [of u 256 16] by simp
  from a b c show ?thesis by (simp add: algebra_simps)
qed

lemma unesc16_plain:
  "c \<noteq> 92 \<Longrightarrow> c \<noteq> 34 \<Longrightarrow> \<not> unat c < 32 \<Longrightarrow> unesc16 (c # rest) = map_option (Cons c) (unesc16 rest)"
  by (cases rest) simp_all

lemma unesc16_uesc: "unesc16 (uesc16 c @ rest) = map_option (Cons c) (unesc16 rest)"
proof -
  let ?u = "unat c"
  have lt: "?u < 65536" using unsigned_less [of c] by simp
  then have d: "?u div 4096 < 16" by simp
  have "of_nat (((?u div 4096 * 16 + ?u div 256 mod 16) * 16 + ?u div 16 mod 16) * 16 + ?u mod 16) = c"
    by (simp only: hex_recombine) simp
  with d show ?thesis
    by (simp add: uesc16_def Let_def hexv16_hexd16)
qed

lemma word16_eqI: "unat (c :: 16 word) = n \<Longrightarrow> c = of_nat n"
  by auto

lemma unesc16_esc: "\<not> is_high c \<Longrightarrow> \<not> is_low c \<Longrightarrow> unesc16 (esc16 c @ rest) = map_option (Cons c) (unesc16 rest)"
proof -
  let ?n = "unat c"
  consider "?n = 8" | "?n = 9" | "?n = 10" | "?n = 12" | "?n = 13" | "?n = 34" | "?n = 92"
    | "?n < 32" "?n \<notin> {8, 9, 10, 12, 13}" | "32 \<le> ?n" "?n \<noteq> 34" "?n \<noteq> 92"
    by fastforce
  then show ?thesis
  proof cases
    case 8
    then have "esc16 c = uesc16 c" by (simp add: esc16_def)
    then show ?thesis by (simp add: unesc16_uesc)
  next
    case 9
    then have "c \<noteq> 92" "c \<noteq> 34" "\<not> ?n < 32" by auto
    with 9 show ?thesis by (simp add: esc16_def unesc16_plain)
  qed (auto simp: esc16_def simple16_def dest!: word16_eqI)
qed


lemma surrogate_plain:
  "is_high c \<or> is_low c \<Longrightarrow> c \<noteq> 92 \<and> c \<noteq> 34 \<and> \<not> unat c < 32"
  by (auto simp: is_high_def is_low_def)

lemma unesc16_quote_units: "unesc16 (quote_units s) = Some s"
proof (induction s rule: quote_units.induct)
  case (2 c)
  then show ?case
    using unesc16_uesc [of c "[]"] unesc16_esc [of c "[]"] by auto
next
  case (3 c d cs)
  show ?case
  proof (cases "is_high c \<and> is_low d")
    case True
    with surrogate_plain [of c] surrogate_plain [of d] "3.IH"(1) show ?thesis
      by (simp add: unesc16_plain)
  next
    case False
    then show ?thesis
      using "3.IH"(2,3) unesc16_uesc [of c] unesc16_esc [of c] by auto
  qed
qed simp

subsection \<open>Round trip\<close>


end
