(* ===== verification/DOM.thy ===== *)
theory DOM
  imports Json16
begin

text \<open>
  The script that \<open>source\<close> runs in the page (\<open>src/index.js\<close> lines 213--270) to find
  the text nodes carrying the invisible marker and their coordinates. Page text is a list
  of UTF-16 code units (\<open>16 word\<close>). The document is a tree of nodes: the walk
  \<open>walkTheDOMGetInvisiNodes\<close> follows \<open>firstChild\<close> and \<open>nextSibling\<close>, which in a
  document enumerate a node's children in order, so the children are a list. Layout is a
  store from element ids to their offsets, scroll positions, bounding boxes and
  \<open>offsetParent\<close>, which \<open>getOffset\<close> follows as a pointer chain that may, as far as the
  code can tell, not end: it is a \<open>partial_function (option)\<close>. Lengths in CSS pixels are
  integers here.
\<close>

record elem =
  offsetLeft :: "int option"
  offsetTop :: "int option"
  scrollLeft :: int
  scrollTop :: int
  offsetParent :: "nat option"
  rect_width :: int
  rect_height :: int

type_synonym layout = "nat \<Rightarrow> elem"

text \<open>A node of the document: a text node (\<open>nodeType\<close> 3) with its \<open>data\<close>, an element
  with its id and children, or any other node (a comment, a processing instruction), which
  has no children.\<close>

datatype dnode = DText u16string | DElem nat "dnode list" | DOther

text \<open>The code units \<open>String.prototype.trim\<close> removes: WhiteSpace and LineTerminator.\<close>

definition js_ws16 :: "16 word \<Rightarrow> bool" where
  "js_ws16 c =
     (let n = unat c in
        (9 \<le> n \<and> n \<le> 13) \<or> n = 32 \<or> n = 160 \<or> n = 5760 \<or> (8192 \<le> n \<and> n \<le> 8202) \<or>
        n = 8232 \<or> n = 8233 \<or> n = 8239 \<or> n = 8287 \<or> n = 12288 \<or> n = 65279)"

definition js_trim16 :: "u16string \<Rightarrow> u16string" where
  "js_trim16 s = rev (dropWhile js_ws16 (rev (dropWhile js_ws16 s)))"

text \<open>\<open>text.charCodeAt(0) === 8288 && text.charCodeAt(1) === 56128 &&
  text.charCodeAt(2) === 56814\<close>: \<open>charCodeAt\<close> beyond the end is \<open>NaN\<close>, equal to nothing.\<close>

definition has_marker :: "u16string \<Rightarrow> bool" where
  "has_marker t = (case t of a # b # c # _ \<Rightarrow> a = 8288 \<and> b = 56128 \<and> c = 56814 | _ \<Rightarrow> False)"

text \<open>An entry of \<open>invisiNodes\<close>: \<open>{invisitext, parent}\<close>.\<close>

type_synonym invisi = "u16string \<times> nat"

definition processAllTextNodes :: "nat \<Rightarrow> dnode \<Rightarrow> invisi list \<Rightarrow> invisi list" where
  "processAllTextNodes par node acc =
     (case node of
        DText d \<Rightarrow>
          (let text = js_trim16 d in
           if 0 < length text then (if has_marker text then acc @ [(text, par)] else acc) else acc)
      | _ \<Rightarrow> acc)"

text \<open>\<open>walkTheDOMGetInvisiNodes(node, processAllTextNodes, invisiNodes)\<close>: the node
  itself, then each child in turn. \<open>par\<close> is the node's \<open>parentNode\<close>.\<close>

fun walkTheDOM :: "nat \<Rightarrow> dnode \<Rightarrow> invisi list \<Rightarrow> invisi list"
and walkChildren :: "nat \<Rightarrow> dnode list \<Rightarrow> invisi list \<Rightarrow> invisi list" where
  "walkTheDOM par node acc =
     (let acc1 = processAllTextNodes par node acc in
      case node of DElem i cs \<Rightarrow> walkChildren i cs acc1 | _ \<Rightarrow> acc1)"
| "walkChildren i [] acc = acc"
| "walkChildren i (c # cs) acc = walkChildren i cs (walkTheDOM i c acc)"

text \<open>\<open>getOffset(el)\<close>: the loop over \<open>offsetParent\<close> while the element has numeric
  offsets; \<open>None\<close> for the parent chain is \<open>null\<close>.\<close>

partial_function (option) offset_loop :: "layout \<Rightarrow> nat option \<Rightarrow> int \<Rightarrow> int \<Rightarrow> (int \<times> int) option" where
  "offset_loop lay el x y =
     (case el of
        None \<Rightarrow> Some (x, y)
      | Some e \<Rightarrow>
          (case (offsetLeft (lay e), offsetTop (lay e)) of
             (Some l, Some t) \<Rightarrow> offset_loop lay (offsetParent (lay e)) (x + l - scrollLeft (lay e)) (y + t - scrollTop (lay e))
           | _ \<Rightarrow> Some (x, y)))"

declare offset_loop.simps [code]

definition getOffset :: "layout \<Rightarrow> nat \<Rightarrow> (int \<times> int) option" where
  "getOffset lay el = offset_loop lay (Some el) 0 0"

record coords =
  c_width :: int
  c_height :: int
  c_left :: int
  c_top :: int

text \<open>\<open>getInvisiNodeCoordinates(invisiNodes)\<close>: each entry gets the parent's bounding box
  size and its offset (\<open>getOffset\<close> is called once for \<open>left\<close> and once for \<open>top\<close>, with
  the same result), and loses its \<open>parent\<close>.\<close>

fun getInvisiNodeCoordinates :: "layout \<Rightarrow> invisi list \<Rightarrow> (u16string \<times> coords) list option" where
  "getInvisiNodeCoordinates lay [] = Some []"
| "getInvisiNodeCoordinates lay ((t, p) # ns) =
     (case getOffset lay p of
        None \<Rightarrow> None
      | Some (l, tp) \<Rightarrow>
          map_option (Cons (t, \<lparr>c_width = rect_width (lay p), c_height = rect_height (lay p), c_left = l, c_top = tp\<rparr>))
            (getInvisiNodeCoordinates lay ns))"

text \<open>The script body: walk \<open>document.body\<close> (whose \<open>parentNode\<close> is \<open>html\<close>), compute
  the coordinates, then \<open>info = fpti\<close>, which throws a \<open>ReferenceError\<close> when the page
  defines no global \<open>fpti\<close>; otherwise \<open>info\<close> is pushed last. \<open>None\<close>: the script does
  not return.\<close>

definition fpti_error :: js_err where
  "fpti_error = JsError ''ReferenceError: fpti is not defined''"

definition invisi_script :: "layout \<Rightarrow> nat \<Rightarrow> dnode \<Rightarrow> 'i option \<Rightarrow>
    (js_err + (u16string \<times> coords) list \<times> 'i) option" where
  "invisi_script lay html body fpti =
     (let invisiNodes = walkTheDOM html body [] in
      case getInvisiNodeCoordinates lay invisiNodes of
        None \<Rightarrow> None
      | Some cs \<Rightarrow> Some (case fpti of None \<Rightarrow> Inl fpti_error | Some info \<Rightarrow> Inr (cs, info)))"

text \<open>The value the script returns: \<open>JSON.stringify(invisiNodes)\<close> of the entries, each
  \<open>{invisitext, coordinates: {width, height, left, top}}\<close> (\<open>parent\<close> was added before
  \<open>coordinates\<close> and deleted), followed by \<open>info\<close>.\<close>

definition invisi_entry :: "u16string \<times> coords \<Rightarrow> jv" where
  "invisi_entry e =
     (case e of (t, c) \<Rightarrow>
        JVObj [(u16 ''invisitext'', JVStr t),
               (u16 ''coordinates'', JVObj [(u16 ''width'', JVNum (c_width c)), (u16 ''height'', JVNum (c_height c)),
                                             (u16 ''left'', JVNum (c_left c)), (u16 ''top'', JVNum (c_top c))])])"

definition script_text :: "layout \<Rightarrow> nat \<Rightarrow> dnode \<Rightarrow> jv option \<Rightarrow> (js_err + u16string) option" where
  "script_text lay html body fpti =
     map_option (map_sum id (\<lambda>(cs, info). js16 (JVArr (map invisi_entry cs @ [info]))))
       (invisi_script lay html body fpti)"

subsection \<open>A reference for the walk\<close>

text \<open>The text nodes of a tree in document order, each with its parent.\<close>

fun text_nodes :: "nat \<Rightarrow> dnode \<Rightarrow> (u16string \<times> nat) list"
and text_nodes_list :: "nat \<Rightarrow> dnode list \<Rightarrow> (u16string \<times> nat) list" where
  "text_nodes par (DText d) = [(d, par)]"
| "text_nodes par (DElem i cs) = text_nodes_list i cs"
| "text_nodes par DOther = []"
| "text_nodes_list i [] = []"
| "text_nodes_list i (c # cs) = text_nodes i c @ text_nodes_list i cs"

definition invisi_of :: "(u16string \<times> nat) list \<Rightarrow> invisi list" where
  "invisi_of ts = [(js_trim16 d, p). (d, p) \<leftarrow> ts, has_marker (js_trim16 d)]"

text \<open>The offset-parent chain from an element: the elements \<open>getOffset\<close> adds, in order,
  until \<open>null\<close> or an element without numeric offsets; and what each adds.\<close>

inductive offset_chain :: "layout \<Rightarrow> nat option \<Rightarrow> nat list \<Rightarrow> bool" where
  chain_null: "offset_chain lay None []"
| chain_stop: "offsetLeft (lay e) = None \<or> offsetTop (lay e) = None \<Longrightarrow> offset_chain lay (Some e) []"
| chain_step: "offsetLeft (lay e) = Some l \<Longrightarrow> offsetTop (lay e) = Some t \<Longrightarrow>
    offset_chain lay (offsetParent (lay e)) es \<Longrightarrow> offset_chain lay (Some e) (e # es)"

definition dx :: "layout \<Rightarrow> nat \<Rightarrow> int" where
  "dx lay e = the (offsetLeft (lay e)) - scrollLeft (lay e)"

definition dy :: "layout \<Rightarrow> nat \<Rightarrow> int" where
  "dy lay e = the (offsetTop (lay e)) - scrollTop (lay e)"

text \<open>The layout ranks the elements when every \<open>offsetParent\<close> has a smaller rank than
  its child, as its depth in the document does (the offset parent is an ancestor).\<close>

definition offset_ranked :: "layout \<Rightarrow> (nat \<Rightarrow> nat) \<Rightarrow> bool" where
  "offset_ranked lay rank = (\<forall>e p. offsetParent (lay e) = Some p \<longrightarrow> rank p < rank e)"

text \<open>A page: \<open>body\<close> (element 1) holds a blank text node, a \<open>span\<close> (element 2) whose
  text starts with the marker after a blank, a comment and plain text.\<close>

definition ex_layout :: layout where
  "ex_layout = (\<lambda>e. if e = 2 then \<lparr>offsetLeft = Some 10, offsetTop = Some 20, scrollLeft = 0, scrollTop = 5,
                                   offsetParent = Some 1, rect_width = 40, rect_height = 12\<rparr>
                   else \<lparr>offsetLeft = Some 8, offsetTop = Some 8, scrollLeft = 0, scrollTop = 0,
                         offsetParent = None, rect_width = 800, rect_height = 600\<rparr>)"

definition ex_body :: dnode where
  "ex_body = DElem 1 [DText [10, 32], DElem 2 [DText [32, 8288, 56128, 56814, 65, 32]], DOther, DText [65]]"

subsection \<open>Lemmas\<close>


lemma has_marker_Nil [simp]: "\<not> has_marker []"
  by (simp add: has_marker_def)

lemma offset_loop_None [simp]: "offset_loop lay None x y = Some (x, y)"
  by (subst offset_loop.simps) simp

lemma has_marker_nonempty: "has_marker t \<Longrightarrow> 0 < length t"
  by (auto simp: has_marker_def split: list.splits)

lemma invisi_of_simps [simp]:
  "invisi_of [] = []"
  "invisi_of (x # xs) = (if has_marker (js_trim16 (fst x)) then [(js_trim16 (fst x), snd x)] else []) @ invisi_of xs"
  "invisi_of (xs @ ys) = invisi_of xs @ invisi_of ys"
  by (auto simp: invisi_of_def split: prod.splits)

lemma walk_acc:
  "walkTheDOM par t acc = acc @ invisi_of (text_nodes par t)"
  "walkChildren i cs acc = acc @ invisi_of (text_nodes_list i cs)"
  by (induction par t acc and i cs acc rule: walkTheDOM_walkChildren.induct)
     (auto simp: processAllTextNodes_def Let_def has_marker_nonempty split: dnode.splits)

text \<open>C11 The accumulating walk is the reference: the walk from any node appends to its
  accumulator the trimmed marked text nodes of that subtree in document order.\<close>

theorem walk_equiv:
  "walkTheDOM par t acc = acc @ invisi_of (text_nodes par t)"
  by (rule walk_acc(1))

lemma offset_loop_returns:
  assumes r: "offset_ranked lay rank"
  shows "\<exists>res. offset_loop lay (Some e) x y = Some res"
proof (induction "rank e" arbitrary: e x y rule: less_induct)
  case less
  show ?case
  proof (cases "offsetParent (lay e)")
    case None
    then show ?thesis by (subst offset_loop.simps) (simp split: option.splits prod.splits)
  next
    case (Some p)
    with r have "rank p < rank e" by (simp add: offset_ranked_def)
    then have "\<And>x y. \<exists>res. offset_loop lay (Some p) x y = Some res" by (rule less)
    with Some show ?thesis by (subst offset_loop.simps) (simp split: option.splits prod.splits)
  qed
qed

lemma coords_return:
  "offset_ranked lay rank \<Longrightarrow> \<exists>cs. getInvisiNodeCoordinates lay ns = Some cs"
proof (induction ns)
  case (Cons n ns)
  obtain t p where n: "n = (t, p)" by fastforce
  from offset_loop_returns [OF Cons.prems, of p 0 0] obtain l tp where "getOffset lay p = Some (l, tp)"
    by (auto simp: getOffset_def)
  with Cons n show ?case by auto
qed simp

text \<open>C17 When the offset parents are ranked, as in every document, the script returns: the
  \<open>getOffset\<close> loop ends for every entry.\<close>

theorem invisi_script_returns:
  "offset_ranked lay rank \<Longrightarrow> \<exists>r. invisi_script lay html body fpti = Some r"
  using coords_return [of lay rank "walkTheDOM html body []"]
  by (auto simp: invisi_script_def)

text \<open>C10 On a page that defines no global \<open>fpti\<close>, the script throws a \<open>ReferenceError\<close>
  (from \<open>info = fpti\<close>) whenever it returns, whatever the document: no page without
  \<open>fpti\<close> yields the invisible-node dump.\<close>

theorem invisi_script_no_fpti:
  "offset_ranked lay rank \<Longrightarrow> invisi_script lay html body None = Some (Inl fpti_error)"
  using coords_return [of lay rank "walkTheDOM html body []"]
  by (auto simp: invisi_script_def)


subsection \<open>The example page\<close>

lemma ex_layout_ranked: "offset_ranked ex_layout (\<lambda>e. e)"
  by (simp add: offset_ranked_def ex_layout_def)

lemma ex_walk: "walkTheDOM 0 ex_body [] = [([8288, 56128, 56814, 65], 2)]"
  by (simp add: ex_body_def processAllTextNodes_def js_trim16_def js_ws16_def has_marker_def)

text \<open>On the example page with \<open>fpti\<close> defined, the script reports the marked span's text
  (trimmed), its box, and its offset summed along the offset-parent chain
  (\<open>10 + 8\<close> left, \<open>20 - 5 + 8\<close> top).\<close>

lemma invisi_script_example:
  "invisi_script ex_layout 0 ex_body (Some (7::nat)) =
   Some (Inr ([([8288, 56128, 56814, 65], \<lparr>c_width = 40, c_height = 12, c_left = 18, c_top = 23\<rparr>)], 7))"
  unfolding invisi_script_def Let_def ex_walk
  by (simp add: getOffset_def offset_loop.simps ex_layout_def)

theorem invisi_script_returns_witness:
  "offset_ranked ex_layout (\<lambda>e. e) \<and> (\<exists>r. invisi_script ex_layout 0 ex_body (Some (7::nat)) = Some r)"
  using invisi_script_returns [OF ex_layout_ranked] ex_layout_ranked by blast

theorem invisi_script_no_fpti_witness:
  "offset_ranked ex_layout (\<lambda>e. e) \<and> invisi_script ex_layout 0 ex_body (None :: nat option) = Some (Inl fpti_error)"
  using invisi_script_no_fpti [OF ex_layout_ranked] ex_layout_ranked by blast



subsection \<open>The offset as a sum\<close>

lemma offset_loop_chain:
  "offset_chain lay el es \<Longrightarrow>
   offset_loop lay el x y = Some (x + sum_list (map (dx lay) es), y + sum_list (map (dy lay) es))"
proof (induction arbitrary: x y rule: offset_chain.induct)
  case (chain_stop lay e)
  then show ?case by (subst offset_loop.simps) (auto split: option.splits)
next
  case (chain_step lay e l t es)
  have "dx lay e = l - scrollLeft (lay e)" "dy lay e = t - scrollTop (lay e)"
    using chain_step.hyps(1,2) by (simp_all add: dx_def dy_def)
  with chain_step show ?case by (subst offset_loop.simps) (simp add: algebra_simps)
qed simp

text \<open>C18 \<open>getOffset\<close> returns the sums, along the offset-parent chain of the element, of each
  element's offset minus its scroll position.\<close>

theorem getOffset_sum:
  "offset_chain lay (Some e) es \<Longrightarrow>
   getOffset lay e = Some (sum_list (map (dx lay) es), sum_list (map (dy lay) es))"
  using offset_loop_chain [of lay "Some e" es 0 0] by (simp add: getOffset_def)

lemma ex_chain: "offset_chain ex_layout (Some 2) [2, 1]"
  by (rule offset_chain.chain_step, simp_all add: ex_layout_def)
     (rule offset_chain.chain_step, simp_all add: ex_layout_def, rule offset_chain.chain_null)

theorem getOffset_sum_witness:
  "offset_chain ex_layout (Some 2) [2, 1] \<and> getOffset ex_layout 2 = Some (18, 23)"
  using getOffset_sum [OF ex_chain] ex_chain by (simp add: dx_def dy_def ex_layout_def)

end
