(* ===== verification/Spec2Isabelle.thy ===== *)
theory Spec2Isabelle
  imports System DOM
begin

text \<open>
  \<^bold>\<open>A verification model of nemo-screenshot.\<close>

  \<open>src/index.js\<close> is a plugin for the nemo test runner. \<open>setup\<close> installs
  \<open>nemo.screenshot\<close> with \<open>snap\<close> (save a PNG of the page), \<open>source\<close> (save the
  page source and a dump of invisible text nodes found by a script run in the page),
  \<open>done\<close> (snap, then call a completion callback) and \<open>setCurrentTestTitle\<close>. Depending
  on its options it also wraps \<open>WebElement.prototype.click\<close> to capture before each
  click, and adds a listener for the driver flow's uncaught exceptions that captures once
  and re-emits the exception. The captures rely on four helpers:
  \<^item> the promise shim \<open>p\<close>;
  \<^item> \<open>titleSlug\<close>;
  \<^item> \<open>appendImageUrlToStackTrace\<close>;
  \<^item> \<open>formatJenkinsImageUrls\<close>.
  They also use Node's \<open>path\<close> and \<open>fs\<close> and the \<open>mkdirp\<close> package.

  \<^bold>\<open>Theories, in import order.\<close>
  \<^item> \<open>Prelude\<close> holds the shared pieces: JavaScript truthiness and string coercion of
    possibly-undefined strings (\<open>string option\<close>), JavaScript strings as UTF-16 code
    units (\<open>u16string\<close>), \<open>Array.join\<close> and the decimal rendering of numbers.
  \<^item> \<open>Promise\<close> models the shim \<open>p\<close> (lines 21--35) as a record \<open>deferred\<close> holding the
    webdriver promise, the native promise and the choice \<open>global.Promise\<close> makes.
    \<open>d_fulfill\<close> and \<open>d_reject\<close> settle at most once; \<open>js_then\<close> is \<open>then\<close> on a
    settled promise, ignoring a non-callable argument. C8 is a refinement: for every
    sequence of resolving calls the shim's promise is the abstract cell \<open>settle_once\<close>.
  \<^item> \<open>Slug\<close> models \<open>titleSlug\<close> (lines 37--43): \<open>trim\<close>, \<open>\W\<close> replaced by \<open>_\<close>,
    the 251-character cut. Claims: bounds (C26), idempotence (C37), the blank
    title (C39); the specification's example is checked as a lemma.
  \<^item> \<open>Path\<close> models POSIX \<open>path.resolve\<close>, \<open>path.join\<close>/\<open>normalize\<close> (on segments) and
    \<open>path.dirname\<close> (on the raw string); joining a plain name and taking the directory
    round-trips (C36).
  \<^item> \<open>FS\<close> models a file system (record \<open>fsys\<close>: directories, files, directories where
    creation is refused), \<open>fs.mkdirSync\<close> with its error order, mkdirp 0.5's recursion
    \<open>mkdirp_sync\<close> and \<open>fs.writeFile\<close>. The invariant \<open>fs_inv\<close> (directories closed
    under parent, files inside directories, nothing both) is preserved. C9 is the
    equivalence of \<open>mkdirp_sync\<close> with its declarative contract \<open>mkdirp_spec\<close> (it
    succeeds exactly when no prefix is a file and every missing prefix may be created,
    and then adds every prefix); C25 is idempotence. \<open>fs_step\<close> is what an
    operation may do to the file system: grow it, keeping the invariant.
  \<^item> \<open>Jenkins\<close> models \<open>formatJenkinsImageUrls\<close> (lines 66--99) with the environment as
    a record of string options and the \<open>console.log\<close> lines returned. Claims: the URLs
    inside the workspace (C29), no \<open>WORKSPACE\<close> (C30), the unchecked prefix
    (C38); the specification's example is checked as a lemma.
  \<^item> \<open>Stack\<close> models exception objects (\<open>stack\<close>, \<open>_nemoScreenshotHandled\<close>), the values
    a capture resolves to and \<open>appendImageUrlToStackTrace\<close> (lines 45--64) with
    \<open>QuoteJSONString\<close> on characters; a JSON string decoder gives the round trip
    (C31); the URL lines of the annotation are C40.
  \<^item> \<open>Capture\<close> models \<open>snap\<close> (145--190), \<open>source\<close> (202--311), \<open>done\<close> (313--321) and
    \<open>setCurrentTestTitle\<close> on the record \<open>world\<close> (file system, driver commands issued,
    console log, unhandled rejections, clock, the closure variables of \<open>setup\<close>). The
    driver is the record \<open>driver\<close> of its answers (\<open>Inl\<close> a failure; the script's
    answer is UTF-16 text). An operation returns its promise's state and the new world;
    an exception thrown in a \<open>then\<close> callback (only \<open>mkdirp.sync\<close> throws) is an
    unhandled rejection and leaves the shim's promise \<open>Pending\<close>. Every
    \<open>console.log\<close>/\<open>console.error\<close> is an entry of the world's log. Claims: the capture
    (C1), a failing \<open>mkdirp\<close> (C5), \<open>done\<close>'s callback (C6, C7), a failed
    screenshot (C22), no session (C23), \<open>source\<close> writing both files (C24), escaping the
    directory (C28), the lost \<open>.txt\<close> on a fresh directory (C35).
  \<^item> \<open>Hooks\<close> extends the world to \<open>sys\<close>: click wrappers, the flow's listeners, a store
    of exception objects (marking one is seen by every holder), what other listeners
    observed, and the pending \<open>getSession\<close> continuations. It models \<open>nemo_setup\<close> and
    \<open>install\<close> (lines 109--122, 327--376), \<open>click_el\<close> (329--340), \<open>emit_from\<close>
    (\<open>flow.emit\<close> with the listener, 343--348) and \<open>exn_task\<close> (349--373). Claims: the
    listener's re-emission overflows (C2, C3), a repeated \<open>setup\<close> makes every exception
    overflow (C4), the lost click outcome (C16), one listener returns (C19), capture
    order (C20), first emission (C21), flat hook file names (C27), repeated click
    capture (C34).
  \<^item> \<open>System\<close> composes the operations into the inductive step relation
    \<open>plugin_step\<close> (setup, snap, source, done, title, click, a returning emission, a
    continuation, the clock), any driver answer at each step, and \<open>reachable\<close>. By rule
    induction the invariant \<open>sys_inv\<close> holds along every run (C12) and the file system
    only grows (C13).
  \<^item> \<open>Json16\<close> models \<open>JSON.stringify\<close> of the script's result (line 269) over UTF-16
    code units: a value datatype \<open>jv\<close>, ES2019's \<open>QuoteJSONString\<close> (a well-formed
    surrogate pair kept, a lone surrogate escaped as \<open>\uXXXX\<close>), integers, arrays, and
    objects that leave out \<open>undefined\<close> properties. A decoder shows the quoting loses
    nothing, for every string (C32).
  \<^item> \<open>DOM\<close> models the page script of \<open>source\<close> (lines 213--270): the document as a
    tree of text, element and other nodes, \<open>processAllTextNodes\<close>,
    \<open>walkTheDOMGetInvisiNodes\<close> (mutual recursion over a node and its children),
    \<open>getOffset\<close>'s loop over \<open>offsetParent\<close> as a \<open>partial_function (option)\<close>
    (\<open>None\<close>: it does not end), \<open>getInvisiNodeCoordinates\<close>, the read of the global
    \<open>fpti\<close> and the JSON text returned. Claims: the walk equals the reference "marked
    text nodes in document order" (C11), the script returns when offset parents are ranked
    (C17), \<open>getOffset\<close> is the sum along the offset-parent chain (C18), without
    \<open>fpti\<close> the script throws (C10), and the entries' shape (C33).
  \<^item> This theory states what spans components: a click through a wrapper writes its
    screenshot at the hook's file name in the configured directory (C14), and the
    \<open>.txt\<close> that \<open>source\<close> writes is the JSON of the page's marked text nodes (C15).

  \<^bold>\<open>Fuel and termination.\<close> \<open>flow.emit\<close> runs the listeners synchronously, so the
  listener's re-emission is a recursive call: \<open>emit_from n\<close> carries \<open>n\<close> frames of
  stack and \<open>None\<close> is a stack overflow. Every result is stated for all \<open>n\<close>: no stack
  suffices once an exception is marked (C2) or two listeners are installed (C4); one
  frame beyond the listeners suffices for a first emission with one listener (C19).
  \<open>getOffset\<close> may loop on a cyclic \<open>offsetParent\<close> chain; C17 proves it ends under a
  rank that decreases along the chain, as the depth does in a document, and C18
  gives its result for every finite chain. All other operations are total functions
  (structural recursion, or the path length for mkdirp).

  \<^bold>\<open>Interleaving.\<close> The driver serialises its commands and callbacks run in the order
  the commands complete, which is the order issued. A capture is a sequential
  composition: \<open>source\<close>'s script callback runs before its page-source callback, a
  wrapper's captures are issued before its click, and a file write completes before the
  promise it settles is observed. Between operations, \<open>System\<close> allows any order.

  \<^bold>\<open>Not modelled.\<close> The remaining lines of \<open>src/index.js\<close> are the license header,
  documentation comments and the \<open>module.exports\<close> wrapper. The model abstracts:
  \<^item> base64 decoding: the file content is kept as \<open>Base64Decoded img\<close>;
  \<^item> characters beyond U+00FF in \<open>titleSlug\<close> and the stack annotation: there a
    \<open>char\<close> is a byte (the page script and its JSON use 16-bit code units);
  \<^item> CSS pixel values, which are integers here, and the clock \<open>Date\<close>, a field of the world;
  \<^item> the terminal behind \<open>console\<close>, whose calls are entries of the log.
\<close>

section \<open>Properties across components\<close>

text \<open>C14 A click through a wrapper installed without the \<open>source\<close> option stores its
  screenshot as \<open>ScreenShot_onClick-pid-time.png\<close> directly in the configured directory,
  and the driver receives the screenshot request and then the click. This composes the
  click wrapper (\<open>Hooks\<close>), the capture (\<open>Capture\<close>), the path resolution (\<open>Path\<close>)
  and mkdirp and the file system (\<open>FS\<close>).\<close>

theorem click_capture_written:
  assumes inv: "fs_inv (w_fs s)" and sess: "session_handle drv"
    and shot: "screenshot_result drv = Inr img" and ns: "''source'' \<notin> set opts"
    and mk: "mkdirp_sync (w_fs s) (fs_key cfg (screenShotPath s)) = Inr fs1"
    and nd: "fs_key cfg (screenShotPath s) @ [click_filename cfg s @ ''.png''] \<notin> dirs (w_fs s)"
    and nc: "fs_key cfg (screenShotPath s) \<notin> no_create (w_fs s)"
  shows "files (w_fs (snd (click_el cfg drv [opts] el s))) (fs_key cfg (screenShotPath s) @ [click_filename cfg s @ ''.png'']) =
           Some (Base64Decoded img) \<and>
         w_cmds (snd (click_el cfg drv [opts] el s)) = w_cmds s @ [TakeScreenshot, ClickElement el]"
proof -
  have fs: "w_fs (snd (click_el cfg drv [opts] el s)) = w_fs (snd (snap cfg drv (click_filename cfg s) s))"
    using ns by (simp only: click_el_Cons_fs if_False) (simp add: issue_def)
  have "w_cmds (snd (click_el cfg drv [opts] el s)) = w_cmds s @ [TakeScreenshot, ClickElement el]"
    using click_el_cmds [OF sess, of cfg "[opts]" el s] ns by (simp add: wrapper_cmds_def)
  with fs snap_png_fs [OF inv sess shot click_filename_flat mk nd nc] show ?thesis by simp
qed

theorem click_capture_written_witness:
  "files (w_fs (snd (click_el ex_cfg ex_drv [[''click'']] 7 ex_sys)))
     ([''home'', ''u'', ''report''] @ [click_filename ex_cfg ex_sys @ ''.png'']) = Some (Base64Decoded ''iVBO'') \<and>
   w_cmds (snd (click_el ex_cfg ex_drv [[''click'']] 7 ex_sys)) = [TakeScreenshot, ClickElement 7]"
proof -
  have h: "fs_inv (w_fs ex_sys)" "session_handle ex_drv" "screenshot_result ex_drv = Inr ''iVBO''"
    "''source'' \<notin> set [''click'']"
    by (simp_all add: ex_sys_def ex_fs_inv ex_drv_def)
  have k: "fs_key ex_cfg (screenShotPath ex_sys) = [''home'', ''u'', ''report'']"
    by (simp add: ex_sys_def ex_fs_key)
  have mk: "mkdirp_sync (w_fs ex_sys) (fs_key ex_cfg (screenShotPath ex_sys)) =
            Inr (ex_fs\<lparr>dirs := insert [''home'', ''u'', ''report''] (dirs ex_fs)\<rparr>)"
    using ex_fs_mkdirp by (simp add: k) (simp add: ex_sys_def)
  have nd: "fs_key ex_cfg (screenShotPath ex_sys) @ [click_filename ex_cfg ex_sys @ ''.png''] \<notin> dirs (w_fs ex_sys)"
    "fs_key ex_cfg (screenShotPath ex_sys) \<notin> no_create (w_fs ex_sys)"
    by (simp_all add: k) (simp_all add: ex_sys_def ex_fs_def)
  have c: "w_cmds ex_sys = []" by (simp add: ex_sys_def)
  from click_capture_written [OF h mk nd, of 7] show ?thesis by (simp only: k c append_Nil)
qed


text \<open>C15 The invisible-node dump that \<open>source\<close> stores is the script's JSON: on a page whose
  offset parents are ranked and which defines \<open>fpti\<close>, when the driver answers
  \<open>executeScript\<close> with the script's result and the configured directory exists, \<open>f.txt\<close>
  holds \<open>JSON.stringify\<close> of one entry per marked text node of the document, in
  document order, followed by \<open>fpti\<close>. This composes the page script (\<open>DOM\<close>),
  \<open>JSON.stringify\<close> (\<open>Json16\<close>), the capture (\<open>Capture\<close>) and the file system.\<close>

theorem script_dump_written:
  assumes rk: "offset_ranked lay rank"
    and ans: "script_text lay html body (Some info) = Some (script_result drv)"
    and inv: "fs_inv (w_fs w)" and sess: "session_handle drv" and f: "CHR ''/'' \<notin> set f"
    and pg: "page_source_result drv = Inr src"
    and dir: "fs_key cfg (screenShotPath w) \<in> dirs (w_fs w)"
    and nt: "fs_key cfg (screenShotPath w) @ [f @ ''.txt''] \<notin> dirs (w_fs w)"
    and nh: "fs_key cfg (screenShotPath w) @ [f @ ''.html''] \<notin> dirs (w_fs w)"
    and nc: "fs_key cfg (screenShotPath w) \<notin> no_create (w_fs w)"
  shows "\<exists>cs. getInvisiNodeCoordinates lay (invisi_of (text_nodes html body)) = Some cs \<and>
           files (w_fs (snd (source cfg drv f w))) (fs_key cfg (screenShotPath w) @ [f @ ''.txt'']) =
             Some (Utf8Units (js16 (JVArr (map invisi_entry cs @ [info]))))"
proof -
  obtain cs where cs: "getInvisiNodeCoordinates lay (walkTheDOM html body []) = Some cs"
    using coords_return [OF rk] by blast
  have wk: "walkTheDOM html body [] = invisi_of (text_nodes html body)"
    using walk_acc(1) [of html body "[]"] by simp
  have "script_result drv = Inr (js16 (JVArr (map invisi_entry cs @ [info])))"
    using ans cs by (simp add: script_text_def invisi_script_def)
  from source_success [OF inv sess f this pg dir nt nh nc] cs wk show ?thesis
    by (simp add: issue_def)
qed

theorem script_dump_written_witness:
  "offset_ranked ex_layout (\<lambda>e. e) \<and>
   script_text ex_layout 0 ex_body (Some (JVNum 7)) =
     Some (script_result (ex_drv\<lparr>script_result := the (script_text ex_layout 0 ex_body (Some (JVNum 7)))\<rparr>)) \<and>
   (\<exists>cs. getInvisiNodeCoordinates ex_layout (invisi_of (text_nodes 0 ex_body)) = Some cs \<and>
     files (w_fs (snd (source ex_cfg (ex_drv\<lparr>script_result := the (script_text ex_layout 0 ex_body (Some (JVNum 7)))\<rparr>) ''page'' ex_ready_world)))
       [''home'', ''u'', ''report'', ''page.txt''] = Some (Utf8Units (js16 (JVArr (map invisi_entry cs @ [JVNum 7])))))"
proof -
  let ?d = "ex_drv\<lparr>script_result := the (script_text ex_layout 0 ex_body (Some (JVNum 7)))\<rparr>"
  have st: "\<exists>t. script_text ex_layout 0 ex_body (Some (JVNum 7)) = Some t"
    using invisi_script_returns [OF ex_layout_ranked] by (auto simp: script_text_def)
  then have a: "script_text ex_layout 0 ex_body (Some (JVNum 7)) = Some (script_result ?d)" by auto
  have k: "fs_key ex_cfg (screenShotPath ex_ready_world) = [''home'', ''u'', ''report'']"
    by (simp add: ex_ready_world_def ex_world_def ex_fs_key)
  have h: "fs_inv (w_fs ex_ready_world)" "session_handle ?d" "CHR ''/'' \<notin> set ''page''"
    "page_source_result ?d = Inr ''<html/>''"
    by (simp_all add: ex_ready_world_def ex_world_def ex_fs_def fs_inv_def ex_drv_def)
  have d: "fs_key ex_cfg (screenShotPath ex_ready_world) \<in> dirs (w_fs ex_ready_world)"
    "fs_key ex_cfg (screenShotPath ex_ready_world) @ [''page'' @ ''.txt''] \<notin> dirs (w_fs ex_ready_world)"
    "fs_key ex_cfg (screenShotPath ex_ready_world) @ [''page'' @ ''.html''] \<notin> dirs (w_fs ex_ready_world)"
    "fs_key ex_cfg (screenShotPath ex_ready_world) \<notin> no_create (w_fs ex_ready_world)"
    by (simp_all add: k) (simp_all add: ex_ready_world_def ex_world_def ex_fs_def)
  from script_dump_written [OF ex_layout_ranked a h(1,2,3,4) d] a ex_layout_ranked show ?thesis
    by (simp only: k append.simps)
qed

end
